theory Spec2Isabelle
  imports Complex_Main "HOL-Library.Log_Nat"
begin

section \<open>Data model\<close>

text \<open>
  A JavaScript string is a sequence of UTF-16 code units; \<open>.length\<close> counts them.
  Task titles and descriptions are kept in that form. Identifiers (UUIDs), user ids and
  the texts the store reports are plain ASCII strings.
\<close>

type_synonym jsstring = "nat list"

text \<open>
  \<open>String.prototype.trim\<close> removes the WhiteSpace and LineTerminator code points from
  both ends: TAB, LF, VT, FF, CR, SP, NBSP, U+1680, U+2000..U+200A, U+2028, U+2029,
  U+202F, U+205F, U+3000 and U+FEFF.
\<close>

definition is_ws :: "nat \<Rightarrow> bool" where
  "is_ws c \<longleftrightarrow>
     c = 9 \<or> c = 10 \<or> c = 11 \<or> c = 12 \<or> c = 13 \<or> c = 32 \<or> c = 160 \<or> c = 5760 \<or>
     (8192 \<le> c \<and> c \<le> 8202) \<or> c = 8232 \<or> c = 8233 \<or> c = 8239 \<or> c = 8287 \<or>
     c = 12288 \<or> c = 65279"

definition trim :: "jsstring \<Rightarrow> jsstring" where
  "trim s = rev (dropWhile is_ws (rev (dropWhile is_ws s)))"

text \<open>
  The statistics object \<open>{ total, completed, pending, completionRate }\<close>. It is declared
  before the task row, so that the plain name \<open>completed\<close> is the flag of a task and
  \<open>stats.completed\<close> the counter.
\<close>

record stats =
  total :: int
  completed :: int
  pending :: int
  completionRate :: int

text \<open>
  A row of the table \<open>todos\<close>:
  \<open>{ id, user_id, title, description, completed, created_at, updated_at }\<close>. The field
  \<open>id\<close> is named \<open>todo_id\<close>, since \<open>id\<close> is the identity function of HOL.
\<close>

record todo =
  todo_id :: string
  user_id :: string
  title :: jsstring
  description :: jsstring
  completed :: bool
  created_at :: nat
  updated_at :: nat

text \<open>
  The object of fields to change that \<open>updateTodo\<close> receives and the \<open>cleanUpdates\<close> it
  sends: each of \<open>title\<close>, \<open>description\<close> and \<open>completed\<close> is present or \<open>undefined\<close>.
\<close>

datatype updates = Updates "jsstring option" "jsstring option" "bool option"

text \<open>
  Every failure of the task service is a JavaScript \<open>Error\<close> that carries a message only.
  The constructors stand for the messages; \<open>Wrapped\<close> is the \<open>catch\<close> block of a service
  method, which throws a new error whose message is the method's prefix followed by the
  message of the error it caught.
\<close>

datatype operation = LoadOp | CreateOp | UpdateOp | DeleteOp | ToggleOp | StatsOp

datatype js_error =
    TitleRequired       \<comment> \<open>\<open>El titulo de la tarea es requerido\<close>\<close>
  | NotAuthenticated    \<comment> \<open>\<open>Usuario no autenticado\<close>\<close>
  | IdRequired          \<comment> \<open>\<open>ID de tarea requerido\<close>\<close>
  | NoUpdateData        \<comment> \<open>\<open>No hay datos para actualizar\<close>\<close>
  | TitleEmpty          \<comment> \<open>\<open>El titulo no puede estar vacio\<close>\<close>
  | NotFound            \<comment> \<open>\<open>Tarea no encontrada\<close>\<close>
  | StoreError string   \<comment> \<open>the \<open>error\<close> object of a store response\<close>
  | Wrapped operation js_error

section \<open>The remote task store\<close>

text \<open>
  A response of the store client is \<open>{ data, error }\<close>, each of them possibly \<open>null\<close>.
  An insert ending in \<open>.select().single()\<close> answers with an error or with the one
  inserted row. A delete without \<open>.select()\<close> answers with \<open>error\<close> alone; the number of
  rows it removed is part of what the store did and is not in the answer the client
  reads.
\<close>

datatype 'a response = Response "'a option" "string option"

datatype delete_response = DeleteResponse (rows_deleted: nat) (delete_error: "string option")

text \<open>
  The store as the client sees it during one operation: what each request is answered
  with. \<open>getUser\<close> is the awaited \<open>supabase.auth.getUser()\<close>, \<open>{ data: { user }, error }\<close>,
  reduced to the id of the user.
\<close>

record remote =
  getUser :: "string response"
  select_all :: "todo list response"
  select_completed :: "bool list response"
  insert_row :: "jsstring \<Rightarrow> jsstring \<Rightarrow> string \<Rightarrow> string + todo"
  update_row :: "string \<Rightarrow> updates \<Rightarrow> todo response"
  delete_row :: "string \<Rightarrow> delete_response"

text \<open>The requests a service method issues, in order.\<close>

datatype call =
    GetUser
  | SelectAll
  | SelectCompleted
  | Insert jsstring jsstring string
  | Update string updates
  | Delete string

section \<open>Numbers\<close>

text \<open>
  JavaScript numbers are IEEE 754 doubles. \<open>fl\<close> rounds a non-negative rational to the
  nearest double (53 significant bits, ties to even); \<open>expo q\<close> is the exponent of the
  binade of \<open>q\<close>, that is \<open>2 powi expo q \<le> q < 2 powi (expo q + 1)\<close>. Overflow and
  subnormal numbers are left out: an array has fewer than \<open>2 ^ 32\<close> elements, so the
  quotient of two lengths is \<open>0\<close> or at least \<open>2 powi (- 32)\<close>.
  \<open>Math.round\<close> returns the nearest integer, a tie going up.
\<close>

definition expo :: "rat \<Rightarrow> int" where
  "expo q = (case quotient_of q of (a, b) \<Rightarrow>
      (let d = bitlen a - bitlen b in if 2 powi d \<le> q then d else d - 1))"

definition round_even :: "rat \<Rightarrow> int" where
  "round_even x = (let f = \<lfloor>x\<rfloor>; d = x - of_int f in
      if d < 1 / 2 then f else if 1 / 2 < d then f + 1 else if even f then f else f + 1)"

definition fl :: "rat \<Rightarrow> rat" where
  "fl x = (if x \<le> 0 then 0 else
     (let u = 2 powi (expo x - 52) in of_int (round_even (x / u)) * u))"

definition Math_round :: "rat \<Rightarrow> int" where
  "Math_round x = \<lfloor>x + 1 / 2\<rfloor>"

section \<open>The task service (\<open>todoService\<close>)\<close>

text \<open>
  Each method returns what it resolves to (\<open>Inr\<close>) or the error it rejects with (\<open>Inl\<close>),
  and the requests it sent to the store.
\<close>

definition service_getTodos :: "remote \<Rightarrow> (js_error + todo list) \<times> call list" where
  "service_getTodos r = (case select_all r of Response d e \<Rightarrow>
     (case e of
        Some m \<Rightarrow> (Inl (Wrapped LoadOp (StoreError m)), [SelectAll])
      | None \<Rightarrow> (Inr (case d of None \<Rightarrow> [] | Some ts \<Rightarrow> ts), [SelectAll])))"

definition service_createTodo ::
    "remote \<Rightarrow> jsstring \<Rightarrow> jsstring \<Rightarrow> (js_error + todo) \<times> call list" where
  "service_createTodo r title_arg description_arg =
     (if title_arg = [] \<or> length (trim title_arg) = 0
      then (Inl (Wrapped CreateOp TitleRequired), [])
      else (case getUser r of Response u userError \<Rightarrow>
        (case (userError, u) of
           (None, Some uid) \<Rightarrow>
             (case insert_row r (trim title_arg) (trim description_arg) uid of
                Inl m \<Rightarrow> (Inl (Wrapped CreateOp (StoreError m)),
                          [GetUser, Insert (trim title_arg) (trim description_arg) uid])
              | Inr row \<Rightarrow> (Inr row,
                          [GetUser, Insert (trim title_arg) (trim description_arg) uid]))
         | _ \<Rightarrow> (Inl (Wrapped CreateOp NotAuthenticated), [GetUser]))))"

text \<open>
  \<open>updateTodo\<close>: the id and the update object are checked, the title is checked and the
  fields are cleaned, then one update is sent. A response without error and without
  data is the error \<open>Tarea no encontrada\<close>.
\<close>

definition service_updateTodo ::
    "remote \<Rightarrow> string \<Rightarrow> updates \<Rightarrow> (js_error + todo) \<times> call list" where
  "service_updateTodo r i upd = (case upd of Updates t d c \<Rightarrow>
     (if i = [] then (Inl (Wrapped UpdateOp IdRequired), [])
      else if t = None \<and> d = None \<and> c = None then (Inl (Wrapped UpdateOp NoUpdateData), [])
      else if (case t of None \<Rightarrow> False | Some x \<Rightarrow> x = [] \<or> length (trim x) = 0)
      then (Inl (Wrapped UpdateOp TitleEmpty), [])
      else
        (let cleanUpdates = Updates (map_option trim t) (map_option trim d) c in
         (case update_row r i cleanUpdates of Response dat e \<Rightarrow>
            (case e of
               Some m \<Rightarrow> (Inl (Wrapped UpdateOp (StoreError m)), [Update i cleanUpdates])
             | None \<Rightarrow>
                 (case dat of
                    None \<Rightarrow> (Inl (Wrapped UpdateOp NotFound), [Update i cleanUpdates])
                  | Some row \<Rightarrow> (Inr row, [Update i cleanUpdates])))))))"

text \<open>
  \<open>deleteTodo\<close>: the id is checked and one delete is sent; only the \<open>error\<close> of the
  response is read.
\<close>

definition service_deleteTodo :: "remote \<Rightarrow> string \<Rightarrow> (js_error + unit) \<times> call list" where
  "service_deleteTodo r i =
     (if i = [] then (Inl (Wrapped DeleteOp IdRequired), [])
      else (case delete_error (delete_row r i) of
              Some m \<Rightarrow> (Inl (Wrapped DeleteOp (StoreError m)), [Delete i])
            | None \<Rightarrow> (Inr (), [Delete i])))"

definition service_toggleTodo ::
    "remote \<Rightarrow> string \<Rightarrow> bool \<Rightarrow> (js_error + todo) \<times> call list" where
  "service_toggleTodo r i c =
     (case service_updateTodo r i (Updates None None (Some c)) of
        (Inl e, cs) \<Rightarrow> (Inl (Wrapped ToggleOp e), cs)
      | (Inr row, cs) \<Rightarrow> (Inr row, cs))"

text \<open>
  \<open>getTodoStats\<close> selects the column \<open>completed\<close> of the rows of the store and counts.
  \<open>stats_of_rows\<close> is the computation on the rows received,
  \<open>completionRate: total > 0 ? Math.round((completed / total) * 100) : 0\<close>.
\<close>

definition completion_rate :: "nat \<Rightarrow> nat \<Rightarrow> int" where
  "completion_rate c t =
     (if t > 0 then Math_round (fl (fl (of_nat c / of_nat t) * 100)) else 0)"

definition stats_of_rows :: "bool list \<Rightarrow> stats" where
  "stats_of_rows rows =
     (let total = length rows;
          completed = length (filter (\<lambda>flag. flag) rows);
          pending = int total - int completed
      in \<lparr>total = int total, stats.completed = int completed, pending = pending,
          completionRate = completion_rate completed total\<rparr>)"

definition service_getTodoStats :: "remote \<Rightarrow> (js_error + stats) \<times> call list" where
  "service_getTodoStats r = (case select_completed r of Response d e \<Rightarrow>
     (case e of
        Some m \<Rightarrow> (Inl (Wrapped StatsOp (StoreError m)), [SelectCompleted])
      | None \<Rightarrow> (Inr (stats_of_rows (case d of None \<Rightarrow> [] | Some rows \<Rightarrow> rows)),
                 [SelectCompleted])))"

text \<open>
  The aggregate as the specification words it: the rate is
  \<open>round(completed / total * 100)\<close> over the rationals, \<open>0\<close> when \<open>total\<close> is \<open>0\<close>.
\<close>

definition spec_completion_rate :: "nat \<Rightarrow> nat \<Rightarrow> int" where
  "spec_completion_rate c t = (if t > 0 then round (of_nat c / of_nat t * 100 :: rat) else 0)"

section \<open>The task store (\<open>useTodoStore\<close>)\<close>

text \<open>
  The configuration of a realtime channel: its name and the \<open>postgres_changes\<close> options
  (\<open>event\<close>, \<open>schema\<close>, \<open>table\<close>, \<open>filter\<close>).
\<close>

record channel =
  topic :: string
  event :: string
  schema :: string
  table_name :: string
  row_filter :: string

record store =
  todos :: "todo list"
  loading :: bool
  error :: "js_error option"
  realtimeEnabled :: bool
  channel :: "channel option"
  stats :: stats

definition initial_store :: store where
  "initial_store = \<lparr>todos = [], loading = False, error = None, realtimeEnabled = False,
     channel = None,
     stats = \<lparr>total = 0, stats.completed = 0, pending = 0, completionRate = 0\<rparr>\<rparr>"

text \<open>
  An action of the store is run from its call to the end, with nothing else in between.
  It returns what it resolves to or rejects with, the requests sent meanwhile, and the
  store afterwards. Toasts and console output are left out.

  \<open>updateStats\<close> asks the service for the statistics and stores them; when the service
  rejects, the error is logged and the statistics stay as they were.
\<close>

definition updateStats :: "remote \<Rightarrow> store \<Rightarrow> call list \<times> store" where
  "updateStats r s =
     (case service_getTodoStats r of
        (Inr st, cs) \<Rightarrow> (cs, s\<lparr>stats := st\<rparr>)
      | (Inl e, cs) \<Rightarrow> (cs, s))"

definition store_fetchTodos ::
    "remote \<Rightarrow> store \<Rightarrow> (js_error + todo list) \<times> call list \<times> store" where
  "store_fetchTodos r s =
     (let s1 = s\<lparr>loading := True, error := None\<rparr> in
      (case service_getTodos r of
         (Inl e, cs) \<Rightarrow> (Inl e, cs, s1\<lparr>error := Some e, loading := False\<rparr>)
       | (Inr ts, cs) \<Rightarrow>
           (case service_getTodoStats r of
              (Inl e, cs') \<Rightarrow> (Inl e, cs @ cs', s1\<lparr>error := Some e, loading := False\<rparr>)
            | (Inr st, cs') \<Rightarrow>
                (Inr ts, cs @ cs', s1\<lparr>todos := ts, stats := st, loading := False\<rparr>))))"

text \<open>\<open>createTodo(title, description = '')\<close>: the new task goes to the head.\<close>

definition store_createTodo ::
    "remote \<Rightarrow> jsstring \<Rightarrow> jsstring option \<Rightarrow> store \<Rightarrow> (js_error + todo) \<times> call list \<times> store"
    where
  "store_createTodo r title_arg description_arg s =
     (let s1 = s\<lparr>loading := True, error := None\<rparr>;
          description_val = (case description_arg of None \<Rightarrow> [] | Some d \<Rightarrow> d)
      in
      (case service_createTodo r title_arg description_val of
         (Inr newTodo, cs) \<Rightarrow>
           (let s2 = s1\<lparr>todos := newTodo # todos s1, loading := False\<rparr> in
            (case updateStats r s2 of (cs', s3) \<Rightarrow> (Inr newTodo, cs @ cs', s3)))
       | (Inl e, cs) \<Rightarrow> (Inl e, cs, s1\<lparr>error := Some e, loading := False\<rparr>)))"

text \<open>
  \<open>updateTodo(id, updates)\<close>:
  \<open>todos: state.todos.map(todo => todo.id === id ? updatedTodo : todo)\<close>.
\<close>

definition store_updateTodo ::
    "remote \<Rightarrow> string \<Rightarrow> updates \<Rightarrow> store \<Rightarrow> (js_error + todo) \<times> call list \<times> store" where
  "store_updateTodo r i upd s =
     (let s1 = s\<lparr>loading := True, error := None\<rparr> in
      (case service_updateTodo r i upd of
         (Inr updatedTodo, cs) \<Rightarrow>
           (let s2 = s1\<lparr>todos := map (\<lambda>t. if todo_id t = i then updatedTodo else t) (todos s1),
                          loading := False\<rparr> in
            (case updateStats r s2 of (cs', s3) \<Rightarrow> (Inr updatedTodo, cs @ cs', s3)))
       | (Inl e, cs) \<Rightarrow> (Inl e, cs, s1\<lparr>error := Some e, loading := False\<rparr>)))"

text \<open>\<open>deleteTodo(id)\<close>: \<open>todos: state.todos.filter(todo => todo.id !== id)\<close>.\<close>

definition store_deleteTodo ::
    "remote \<Rightarrow> string \<Rightarrow> store \<Rightarrow> (js_error + unit) \<times> call list \<times> store" where
  "store_deleteTodo r i s =
     (let s1 = s\<lparr>loading := True, error := None\<rparr> in
      (case service_deleteTodo r i of
         (Inr u, cs) \<Rightarrow>
           (let s2 = s1\<lparr>todos := filter (\<lambda>t. todo_id t \<noteq> i) (todos s1), loading := False\<rparr> in
            (case updateStats r s2 of (cs', s3) \<Rightarrow> (Inr (), cs @ cs', s3)))
       | (Inl e, cs) \<Rightarrow> (Inl e, cs, s1\<lparr>error := Some e, loading := False\<rparr>)))"

text \<open>\<open>toggleTodo(id, completed)\<close> is \<open>get().updateTodo(id, { completed })\<close>.\<close>

definition store_toggleTodo ::
    "remote \<Rightarrow> string \<Rightarrow> bool \<Rightarrow> store \<Rightarrow> (js_error + todo) \<times> call list \<times> store" where
  "store_toggleTodo r i c s = store_updateTodo r i (Updates None None (Some c)) s"

subsection \<open>Realtime events\<close>

text \<open>
  The payload of a \<open>postgres_changes\<close> event: \<open>eventType\<close> with \<open>payload.new\<close> for an
  insert and an update, and the id of \<open>payload.old\<close> for a delete. \<open>handle_payload\<close> is
  the callback given to \<open>.on('postgres_changes', ...)\<close>.
\<close>

datatype payload = INSERT todo | UPDATE todo | DELETE string

definition handle_payload :: "remote \<Rightarrow> payload \<Rightarrow> store \<Rightarrow> call list \<times> store" where
  "handle_payload r p s =
     (case p of
        INSERT new_row \<Rightarrow> updateStats r (s\<lparr>todos := new_row # todos s\<rparr>)
      | UPDATE new_row \<Rightarrow>
          updateStats r
            (s\<lparr>todos := map (\<lambda>t. if todo_id t = todo_id new_row then new_row else t) (todos s)\<rparr>)
      | DELETE old_id \<Rightarrow>
          updateStats r (s\<lparr>todos := filter (\<lambda>t. todo_id t \<noteq> old_id) (todos s)\<rparr>))"

subsection \<open>The subscription\<close>

text \<open>
  The filter of the subscription is the expression
  \<open>'user_id=eq.' + (supabase.auth.getUser() || {})?.data?.user?.id\<close>. The values it goes
  through: \<open>undefined\<close>, \<open>null\<close>, strings, plain objects, and the promise that the
  asynchronous \<open>supabase.auth.getUser()\<close> returns when it is not awaited (the task
  service awaits it and reads \<open>data.user\<close> of what it resolves to). A promise is an
  object, so it is truthy, and it has no property \<open>data\<close>.
\<close>

datatype jsval =
    JUndefined
  | JNull
  | JStr string
  | JObj "(string \<times> jsval) list"
  | JPromise jsval

fun truthy :: "jsval \<Rightarrow> bool" where
  "truthy JUndefined = False"
| "truthy JNull = False"
| "truthy (JStr x) = (x \<noteq> [])"
| "truthy (JObj kvs) = True"
| "truthy (JPromise v) = True"

definition js_or :: "jsval \<Rightarrow> jsval \<Rightarrow> jsval" where
  "js_or a b = (if truthy a then a else b)"

text \<open>
  Reading a data property. Only objects built from literals have the properties read
  here; on a promise and on a string the names \<open>data\<close>, \<open>user\<close> and \<open>id\<close> are not defined.
\<close>

fun get_prop :: "jsval \<Rightarrow> string \<Rightarrow> jsval" where
  "get_prop (JObj kvs) k = (case map_of kvs k of Some v \<Rightarrow> v | None \<Rightarrow> JUndefined)"
| "get_prop v k = JUndefined"

text \<open>\<open>v?.k\<close> is \<open>undefined\<close> when \<open>v\<close> is \<open>undefined\<close> or \<open>null\<close>.\<close>

definition opt_chain :: "jsval \<Rightarrow> string \<Rightarrow> jsval" where
  "opt_chain v k = (case v of JUndefined \<Rightarrow> JUndefined | JNull \<Rightarrow> JUndefined | _ \<Rightarrow> get_prop v k)"

text \<open>The string that \<open>+\<close> appends for a value.\<close>

fun to_string :: "jsval \<Rightarrow> string" where
  "to_string JUndefined = ''undefined''"
| "to_string JNull = ''null''"
| "to_string (JStr x) = x"
| "to_string (JObj kvs) = ''[object Object]''"
| "to_string (JPromise v) = ''[object Promise]''"

definition auth_getUser :: "remote \<Rightarrow> jsval" where
  "auth_getUser r = (case getUser r of Response u e \<Rightarrow>
     JPromise (JObj
       [(''data'', JObj [(''user'',
           (case u of None \<Rightarrow> JNull | Some uid \<Rightarrow> JObj [(''id'', JStr uid)]))]),
        (''error'', (case e of None \<Rightarrow> JNull | Some m \<Rightarrow> JObj [(''message'', JStr m)]))]))"

definition realtime_filter :: "remote \<Rightarrow> string" where
  "realtime_filter r =
     ''user_id=eq.'' @
       to_string (opt_chain (opt_chain (opt_chain (js_or (auth_getUser r) (JObj [])) ''data'')
         ''user'') ''id'')"

text \<open>
  \<open>subscribeToRealtime\<close> returns a function; it is either \<open>() => {}\<close> or the cleanup that
  unsubscribes the channel just created and clears it from the store. The second
  component of the result lists the channels the call created.
\<close>

datatype cleanup = Noop | Unsubscribe channel

definition subscribeToRealtime :: "remote \<Rightarrow> store \<Rightarrow> cleanup \<times> channel list \<times> store" where
  "subscribeToRealtime r s =
     (case channel s of
        Some c \<Rightarrow> (Noop, [], s)
      | None \<Rightarrow>
          (let newChannel = \<lparr>topic = ''todos-changes'', event = ''*'', schema = ''public'',
                 table_name = ''todos'', row_filter = realtime_filter r\<rparr>
           in (Unsubscribe newChannel, [newChannel],
               s\<lparr>channel := Some newChannel, realtimeEnabled := True\<rparr>)))"

text \<open>Calling the returned function: the channels it unsubscribes and the store afterwards.\<close>

definition run_cleanup :: "cleanup \<Rightarrow> store \<Rightarrow> channel list \<times> store" where
  "run_cleanup f s =
     (case f of
        Noop \<Rightarrow> ([], s)
      | Unsubscribe c \<Rightarrow> ([c], s\<lparr>channel := None, realtimeEnabled := False\<rparr>))"

subsection \<open>Sequences of operations\<close>

text \<open>
  An operation on the store together with the answers the remote store gives while it
  runs. \<open>step\<close> is the store after the operation, \<open>run\<close> the store after a sequence.
\<close>

datatype op =
    FetchTodos remote
  | CreateTodo remote jsstring "jsstring option"
  | UpdateTodo remote string updates
  | ToggleTodo remote string bool
  | DeleteTodo remote string
  | RealtimeEvent remote payload

fun step :: "op \<Rightarrow> store \<Rightarrow> store" where
  "step (FetchTodos r) s = snd (snd (store_fetchTodos r s))"
| "step (CreateTodo r t d) s = snd (snd (store_createTodo r t d s))"
| "step (UpdateTodo r i u) s = snd (snd (store_updateTodo r i u s))"
| "step (ToggleTodo r i c) s = snd (snd (store_toggleTodo r i c s))"
| "step (DeleteTodo r i) s = snd (snd (store_deleteTodo r i s))"
| "step (RealtimeEvent r p) s = snd (handle_payload r p s)"

fun run :: "op list \<Rightarrow> store \<Rightarrow> store" where
  "run [] s = s"
| "run (x # xs) s = run xs (step x s)"

fun remote_of :: "op \<Rightarrow> remote" where
  "remote_of (FetchTodos r) = r"
| "remote_of (CreateTodo r t d) = r"
| "remote_of (UpdateTodo r i u) = r"
| "remote_of (ToggleTodo r i c) = r"
| "remote_of (DeleteTodo r i) = r"
| "remote_of (RealtimeEvent r p) = r"

text \<open>
  Whether the service call that an operation starts with resolves. A realtime event
  makes no such call.
\<close>

fun gateway_ok :: "op \<Rightarrow> bool" where
  "gateway_ok (FetchTodos r) = (\<not> isl (fst (service_getTodos r)))"
| "gateway_ok (CreateTodo r t d) =
     (\<not> isl (fst (service_createTodo r t (case d of None \<Rightarrow> [] | Some x \<Rightarrow> x))))"
| "gateway_ok (UpdateTodo r i u) = (\<not> isl (fst (service_updateTodo r i u)))"
| "gateway_ok (ToggleTodo r i c) = (\<not> isl (fst (service_updateTodo r i (Updates None None (Some c)))))"
| "gateway_ok (DeleteTodo r i) = (\<not> isl (fst (service_deleteTodo r i)))"
| "gateway_ok (RealtimeEvent r p) = True"

text \<open>
  The identifiers a sequence of operations brings in are fresh: a created or inserted
  task has an id that the collection does not hold at that moment, an update is
  answered with the row of the id asked for, and a fetched list has no id twice.
\<close>

fun op_fresh :: "op \<Rightarrow> store \<Rightarrow> bool" where
  "op_fresh (FetchTodos r) s =
     (case fst (service_getTodos r) of Inr ts \<Rightarrow> distinct (map todo_id ts) | Inl e \<Rightarrow> True)"
| "op_fresh (CreateTodo r t d) s =
     (case fst (service_createTodo r t (case d of None \<Rightarrow> [] | Some x \<Rightarrow> x)) of
        Inr row \<Rightarrow> todo_id row \<notin> set (map todo_id (todos s)) | Inl e \<Rightarrow> True)"
| "op_fresh (UpdateTodo r i u) s =
     (case fst (service_updateTodo r i u) of Inr row \<Rightarrow> todo_id row = i | Inl e \<Rightarrow> True)"
| "op_fresh (ToggleTodo r i c) s =
     (case fst (service_updateTodo r i (Updates None None (Some c))) of
        Inr row \<Rightarrow> todo_id row = i | Inl e \<Rightarrow> True)"
| "op_fresh (DeleteTodo r i) s = True"
| "op_fresh (RealtimeEvent r p) s =
     (case p of INSERT new_row \<Rightarrow> todo_id new_row \<notin> set (map todo_id (todos s)) | _ \<Rightarrow> True)"

fun fresh_ids :: "op list \<Rightarrow> store \<Rightarrow> bool" where
  "fresh_ids [] s = True"
| "fresh_ids (x # xs) s = (op_fresh x s \<and> fresh_ids xs (step x s))"

section \<open>The task form (\<open>TaskForm\<close>)\<close>

text \<open>
  \<open>handleSubmit\<close> clears the error of the store, checks the trimmed title and
  description, and calls \<open>createTodo\<close> of the store with the trimmed values. It returns
  the local error it shows, if any; a rejection of \<open>createTodo\<close> is caught and dropped.
\<close>

datatype form_error = FormTitleRequired | FormTitleTooLong | FormDescriptionTooLong

definition TaskForm_handleSubmit ::
    "remote \<Rightarrow> jsstring \<Rightarrow> jsstring \<Rightarrow> store \<Rightarrow> form_error option \<times> call list \<times> store" where
  "TaskForm_handleSubmit r taskTitle taskDescription s =
     (let s0 = s\<lparr>error := None\<rparr> in
      if trim taskTitle = [] then (Some FormTitleRequired, [], s0)
      else if length (trim taskTitle) > 100 then (Some FormTitleTooLong, [], s0)
      else if length (trim taskDescription) > 500 then (Some FormDescriptionTooLong, [], s0)
      else (case store_createTodo r (trim taskTitle) (Some (trim taskDescription)) s0 of
              (res, cs, s') \<Rightarrow> (None, cs, s')))"

section \<open>The backend controller (\<open>todoController\<close>)\<close>

text \<open>
  The controller answers with a status code and a body. Its store client filters by the
  user of the request; every request ends in \<open>.select().single()\<close> and is answered with
  \<open>{ data, error }\<close>. A field of the request body is a string or is absent.
\<close>

datatype http_error =
    TitleIsRequired      \<comment> \<open>\<open>El titulo es requerido\<close>\<close>
  | TitleTooLong         \<comment> \<open>\<open>El titulo no puede exceder 255 caracteres\<close>\<close>
  | InvalidTaskId        \<comment> \<open>\<open>ID de tarea invalido\<close>\<close>
  | NoFieldsToUpdate     \<comment> \<open>\<open>No hay campos para actualizar\<close>\<close>
  | StoreFailure string
  | TaskNotFound         \<comment> \<open>\<open>Tarea no encontrada o no tienes permisos ...\<close>\<close>

datatype body = ErrorBody http_error | DataBody "todo option"

datatype reply = Reply nat body

record backend =
  insert_owned :: "jsstring \<Rightarrow> jsstring \<Rightarrow> string \<Rightarrow> todo response"
  update_owned :: "string \<Rightarrow> string \<Rightarrow> updates \<Rightarrow> todo response"
  delete_owned :: "string \<Rightarrow> string \<Rightarrow> todo response"

text \<open>
  The identifier check
  \<open>/^[0-9a-f]{8}-[0-9a-f]{4}-[1-5][0-9a-f]{3}-[89ab][0-9a-f]{3}-[0-9a-f]{12}$/i\<close>.
\<close>

definition is_hex :: "char \<Rightarrow> bool" where
  "is_hex c \<longleftrightarrow> c \<in> set ''0123456789abcdefABCDEF''"

definition is_uuid :: "string \<Rightarrow> bool" where
  "is_uuid x \<longleftrightarrow>
     length x = 36 \<and>
     list_all is_hex (take 8 x) \<and> x ! 8 = CHR ''-'' \<and>
     list_all is_hex (take 4 (drop 9 x)) \<and> x ! 13 = CHR ''-'' \<and>
     x ! 14 \<in> set ''12345'' \<and> list_all is_hex (take 3 (drop 15 x)) \<and> x ! 18 = CHR ''-'' \<and>
     x ! 19 \<in> set ''89abAB'' \<and> list_all is_hex (take 3 (drop 20 x)) \<and> x ! 23 = CHR ''-'' \<and>
     list_all is_hex (drop 24 x)"

definition controller_createTodo ::
    "backend \<Rightarrow> string \<Rightarrow> jsstring option \<Rightarrow> jsstring option \<Rightarrow> reply" where
  "controller_createTodo db userId title_arg description_arg =
     (case title_arg of
        None \<Rightarrow> Reply 400 (ErrorBody TitleIsRequired)
      | Some t \<Rightarrow>
          if t = [] \<or> trim t = [] then Reply 400 (ErrorBody TitleIsRequired)
          else
            (let cleanTitle = trim t in
             if length cleanTitle > 255 then Reply 400 (ErrorBody TitleTooLong)
             else
               (let cleanDescription =
                      (case description_arg of
                         None \<Rightarrow> []
                       | Some d \<Rightarrow> if d = [] then [] else trim d)
                in (case insert_owned db cleanTitle cleanDescription userId of
                      Response newTodo e \<Rightarrow>
                        (case e of
                           Some m \<Rightarrow> Reply 500 (ErrorBody (StoreFailure m))
                         | None \<Rightarrow> Reply 201 (DataBody newTodo))))))"

definition controller_updateTodo ::
    "backend \<Rightarrow> string \<Rightarrow> string \<Rightarrow> jsstring option \<Rightarrow> jsstring option \<Rightarrow> bool option \<Rightarrow> reply"
    where
  "controller_updateTodo db userId i title_arg description_arg completed_arg =
     (if \<not> is_uuid i then Reply 400 (ErrorBody InvalidTaskId)
      else if (case title_arg of None \<Rightarrow> False | Some t \<Rightarrow> t = [] \<or> trim t = [])
      then Reply 400 (ErrorBody TitleIsRequired)
      else if (case title_arg of None \<Rightarrow> False | Some t \<Rightarrow> length (trim t) > 255)
      then Reply 400 (ErrorBody TitleTooLong)
      else
        (let upd = Updates (map_option trim title_arg)
                     (map_option (\<lambda>d. if d = [] then [] else trim d) description_arg)
                     completed_arg
         in if title_arg = None \<and> description_arg = None \<and> completed_arg = None
            then Reply 400 (ErrorBody NoFieldsToUpdate)
            else (case update_owned db i userId upd of
                    Response updatedTodo e \<Rightarrow>
                      (case e of
                         Some m \<Rightarrow> Reply 500 (ErrorBody (StoreFailure m))
                       | None \<Rightarrow>
                           (case updatedTodo of
                              None \<Rightarrow> Reply 404 (ErrorBody TaskNotFound)
                            | Some row \<Rightarrow> Reply 200 (DataBody (Some row)))))))"

definition controller_deleteTodo :: "backend \<Rightarrow> string \<Rightarrow> string \<Rightarrow> reply" where
  "controller_deleteTodo db userId i =
     (if \<not> is_uuid i then Reply 400 (ErrorBody InvalidTaskId)
      else (case delete_owned db i userId of
              Response deletedTodo e \<Rightarrow>
                (case e of
                   Some m \<Rightarrow> Reply 500 (ErrorBody (StoreFailure m))
                 | None \<Rightarrow>
                     (case deletedTodo of
                        None \<Rightarrow> Reply 404 (ErrorBody TaskNotFound)
                      | Some row \<Rightarrow> Reply 200 (DataBody (Some row))))))"

section \<open>Sample values\<close>

text \<open>
  A task with a given id and flag, a remote store that answers every request with a
  failure, and a backend store that stores what it is given.
\<close>

definition sample_todo :: "string \<Rightarrow> bool \<Rightarrow> todo" where
  "sample_todo i c = \<lparr>todo_id = i, user_id = ''u1'', title = [97], description = [],
     completed = c, created_at = 0, updated_at = 0\<rparr>"

definition failing_remote :: remote where
  "failing_remote = \<lparr>getUser = Response None (Some ''offline''),
     select_all = Response None (Some ''offline''),
     select_completed = Response None (Some ''offline''),
     insert_row = (\<lambda>t d u. Inl ''offline''),
     update_row = (\<lambda>i u. Response None (Some ''offline'')),
     delete_row = (\<lambda>i. DeleteResponse 0 (Some ''offline''))\<rparr>"

definition accepting_backend :: backend where
  "accepting_backend = \<lparr>
     insert_owned = (\<lambda>t d u. Response (Some (sample_todo ''n1'' False\<lparr>title := t, description := d, user_id := u\<rparr>)) None),
     update_owned = (\<lambda>i u upd. Response (Some (sample_todo i False\<lparr>user_id := u,
        title := (case upd of Updates t d c \<Rightarrow> (case t of None \<Rightarrow> [97] | Some x \<Rightarrow> x))\<rparr>)) None),
     delete_owned = (\<lambda>i u. Response None None)\<rparr>"

definition working_remote :: remote where
  "working_remote = \<lparr>getUser = Response (Some ''u1'') None,
     select_all = Response (Some [sample_todo ''n1'' False]) None,
     select_completed = Response (Some [False]) None,
     insert_row = (\<lambda>t d u. Inr (sample_todo ''n1'' False\<lparr>title := t, description := d, user_id := u\<rparr>)),
     update_row = (\<lambda>i upd. Response (Some (sample_todo i True)) None),
     delete_row = (\<lambda>i. DeleteResponse 1 None)\<rparr>"

definition one_task_store :: store where
  "one_task_store = initial_store\<lparr>todos := [sample_todo ''a'' False],
     stats := \<lparr>total = 1, stats.completed = 0, pending = 1, completionRate = 0\<rparr>\<rparr>"

definition sample_uuid :: string where
  "sample_uuid = ''123e4567-e89b-42d3-a456-426614174000''"

text \<open>\<open>subscribeToRealtime\<close> called once for each element of a list, one call after the other:
  the channels created in all and the store at the end.\<close>

fun subscribe_all :: "remote list \<Rightarrow> store \<Rightarrow> channel list \<times> store" where
  "subscribe_all [] s = ([], s)"
| "subscribe_all (r # rs) s =
     (case subscribeToRealtime r s of
        (f, created, s') \<Rightarrow>
          (case subscribe_all rs s' of (later, s'') \<Rightarrow> (created @ later, s'')))"

section \<open>Rounding to a double\<close>

lemma round_even_err: "\<bar>of_int (round_even x) - x\<bar> \<le> 1 / 2"
proof -
  define d where "d = x - of_int \<lfloor>x\<rfloor>"
  have d: "0 \<le> d" "d < 1" unfolding d_def by linarith+
  have x: "x = of_int \<lfloor>x\<rfloor> + d" by (simp add: d_def)
  have "round_even x = \<lfloor>x\<rfloor> \<and> d \<le> 1 / 2 \<or> round_even x = \<lfloor>x\<rfloor> + 1 \<and> 1 / 2 \<le> d"
    unfolding round_even_def Let_def d_def[symmetric] by auto
  then show ?thesis
  proof
    assume "round_even x = \<lfloor>x\<rfloor> \<and> d \<le> 1 / 2"
    then show ?thesis using d x by (simp add: abs_if)
  next
    assume "round_even x = \<lfloor>x\<rfloor> + 1 \<and> 1 / 2 \<le> d"
    then show ?thesis using d x by (simp add: abs_if)
  qed
qed

lemma expo_le:
  assumes "0 < q"
  shows "2 powi (expo q) \<le> q"
proof -
  obtain a b where ab: "quotient_of q = (a, b)" by (cases "quotient_of q")
  have b: "0 < b" using ab quotient_of_denom_pos by blast
  have q: "q = of_int a / of_int b" using ab quotient_of_div by blast
  have a: "0 < a" using assms b q by (simp add: zero_less_divide_iff)
  let ?d = "bitlen a - bitlen b"
  show ?thesis
  proof (cases "2 powi ?d \<le> q")
    case True
    then show ?thesis by (simp add: expo_def ab)
  next
    case False
    have la: "(2::int) ^ nat (bitlen a - 1) \<le> a" using bitlen_bounds[OF a] by blast
    have lb: "b < 2 ^ nat (bitlen b)" using bitlen_bounds[OF b] by blast
    have pa: "0 < bitlen a" using a by (metis bitlen_eq_zero_iff bitlen_nonneg le_less not_le)
    have pb: "0 < bitlen b" using b by (metis bitlen_eq_zero_iff bitlen_nonneg le_less not_le)
    have la': "(2::rat) powi (bitlen a - 1) \<le> of_int a"
    proof -
      have "(of_int ((2::int) ^ nat (bitlen a - 1)) :: rat) \<le> of_int a" using la by (simp only: of_int_le_iff)
      then show ?thesis using pa by (simp add: power_int_def)
    qed
    have lb': "(of_int b :: rat) \<le> 2 powi (bitlen b)"
    proof -
      have "(of_int b :: rat) < of_int ((2::int) ^ nat (bitlen b))" using lb by (simp only: of_int_less_iff)
      then show ?thesis using pb by (simp add: power_int_def)
    qed
    have "(2::rat) powi (?d - 1) = 2 powi (bitlen a - 1) / 2 powi (bitlen b)"
      by (simp add: power_int_diff)
    also have "\<dots> \<le> of_int a / 2 powi (bitlen b)"
      using la' by (simp add: divide_right_mono)
    also have "\<dots> \<le> of_int a / of_int b"
      using lb' a b by (simp add: divide_left_mono)
    finally have "(2::rat) powi (?d - 1) \<le> q" using q by simp
    moreover have "expo q = ?d - 1" using False by (simp add: expo_def ab)
    ultimately show ?thesis by simp
  qed
qed

lemma fl_err:
  assumes "0 < q"
  shows "\<bar>fl q - q\<bar> \<le> q / 2 ^ 53"
proof -
  define u :: rat where "u = 2 powi (expo q - 52)"
  have u: "0 < u" by (simp add: u_def)
  have flq: "fl q = of_int (round_even (q / u)) * u"
    using assms by (simp add: fl_def u_def Let_def)
  have "\<bar>fl q - q\<bar> = \<bar>of_int (round_even (q / u)) - q / u\<bar> * u"
  proof -
    have "(of_int (round_even (q / u)) - q / u) * u = fl q - q"
      using u by (simp add: flq algebra_simps)
    then show ?thesis using u by (metis abs_mult abs_of_pos)
  qed
  also have "\<dots> \<le> (1 / 2) * u"
    using round_even_err[of "q / u"] u by (simp add: mult_right_mono)
  also have "\<dots> = 2 powi (expo q) / 2 ^ 53"
    by (simp add: u_def power_int_diff)
  also have "\<dots> \<le> q / 2 ^ 53"
    using expo_le[OF assms] by (simp add: divide_right_mono)
  finally show ?thesis .
qed

lemma rate_err:
  assumes "0 < c" "c \<le> t"
  shows "\<bar>fl (fl (of_nat c / of_nat t) * 100) - of_nat c / of_nat t * 100\<bar> \<le> 201 / 2 ^ 53"
proof -
  define a :: rat where "a = of_nat c / of_nat t"
  have t: "0 < t" using assms by simp
  have a: "0 < a" "a \<le> 1" using assms t by (simp_all add: a_def)
  define y where "y = fl a"
  have e1: "\<bar>y - a\<bar> \<le> a / 2 ^ 53" unfolding y_def using fl_err[OF a(1)] .
  have "a / 2 ^ 53 < a" using a(1) by simp
  then have y0: "0 < y" using e1 by linarith
  have "a / 2 ^ 53 \<le> 1 / 2 ^ 53" using a(2) by (simp add: divide_right_mono)
  then have e1': "\<bar>y - a\<bar> \<le> 1 / 2 ^ 53" using e1 by linarith
  then have y1: "y \<le> 1 + 1 / 2 ^ 53" using a(2) by linarith
  have y100: "0 < y * 100" using y0 by simp
  have "\<bar>fl (y * 100) - y * 100\<bar> \<le> y * 100 / 2 ^ 53" using fl_err[OF y100] .
  also have "\<dots> \<le> (1 + 1 / 2 ^ 53) * 100 / 2 ^ 53"
    using y1 by (simp add: divide_right_mono)
  also have "\<dots> \<le> 101 / 2 ^ 53" by simp
  finally have e2: "\<bar>fl (y * 100) - y * 100\<bar> \<le> 101 / 2 ^ 53" .
  have "\<bar>y * 100 - a * 100\<bar> \<le> 100 / 2 ^ 53" using e1' by (simp add: abs_if split: if_splits)
  then have "\<bar>fl (y * 100) - a * 100\<bar> \<le> 201 / 2 ^ 53" using e2 by linarith
  then show ?thesis by (simp add: y_def a_def)
qed

lemma completion_rate_zero: "completion_rate 0 t = 0"
proof -
  have "\<lfloor>(1::rat) / 2\<rfloor> = 0" by (rule floor_unique) simp_all
  then show ?thesis by (simp add: completion_rate_def fl_def Math_round_def)
qed

lemma completion_rate_near:
  assumes "0 < t" "c \<le> t" "t < 2 ^ 32"
  shows "completion_rate c t = spec_completion_rate c t \<or>
         completion_rate c t = spec_completion_rate c t - 1"
    and "(200 * c + t) mod (2 * t) \<noteq> 0 \<Longrightarrow> completion_rate c t = spec_completion_rate c t"
proof -
  define x :: rat where "x = of_nat c / of_nat t * 100"
  define y :: rat where "y = fl (fl (of_nat c / of_nat t) * 100)"
  define K :: int where "K = \<lfloor>x + 1 / 2\<rfloor>"
  have cr: "completion_rate c t = \<lfloor>y + 1 / 2\<rfloor>"
    using assms(1) by (simp add: completion_rate_def Math_round_def y_def)
  have sp: "spec_completion_rate c t = K"
    using assms(1) by (simp add: spec_completion_rate_def round_def K_def x_def)
  have err: "\<bar>y - x\<bar> \<le> 201 / 2 ^ 53"
  proof (cases "c = 0")
    case True
    then show ?thesis by (simp add: y_def x_def fl_def)
  next
    case False
    then show ?thesis unfolding y_def x_def using rate_err[of c t] assms(2) by simp
  qed
  define n :: nat where "n = 200 * c + t"
  define r :: nat where "r = n mod (2 * t)"
  define k :: nat where "k = n div (2 * t)"
  have r2: "r + 1 \<le> 2 * t" using assms(1) by (simp add: r_def Suc_leI)
  have n: "n = k * (2 * t) + r" unfolding k_def r_def by (rule div_mult_mod_eq[symmetric])
  have tpos: "(0::rat) < of_nat t" using assms(1) by simp
  have xn: "x + 1 / 2 = of_nat n / (2 * of_nat t)"
    using tpos by (simp add: x_def n_def field_simps)
  have xk: "x + 1 / 2 = of_nat k + of_nat r / (2 * of_nat t)"
    unfolding xn n using tpos by (simp add: field_simps)
  have r0: "0 \<le> (of_nat r :: rat) / (2 * of_nat t)" using tpos by simp
  have "(of_nat (r + 1) :: rat) \<le> of_nat (2 * t)" using r2 by (simp only: of_nat_le_iff)
  then have "(of_nat r :: rat) \<le> 2 * of_nat t - 1" by simp
  then have rhi: "(of_nat r :: rat) / (2 * of_nat t) \<le> 1 - 1 / (2 * of_nat t)"
    using tpos by (simp add: field_simps)
  have "(of_nat (2 * t) :: rat) < of_nat (2 ^ 33)" using assms(3) by (simp only: of_nat_less_iff) simp
  then have t33: "2 * (of_nat t :: rat) < 2 ^ 33" by simp
  have "(1::rat) / 2 ^ 33 < 1 / (2 * of_nat t)"
    using t33 tpos by (simp add: field_simps)
  moreover have "(201::rat) / 2 ^ 53 < 1 / 2 ^ 33" by simp
  ultimately have gap: "201 / 2 ^ 53 < 1 / (2 * (of_nat t :: rat))" by linarith
  have gap1: "1 / (2 * (of_nat t :: rat)) \<le> 1"
    using assms(1) tpos by (simp add: field_simps)
  have Kk: "K = int k"
  proof -
    have "of_int (int k) \<le> x + 1 / 2" using xk r0 by simp
    moreover have "x + 1 / 2 < of_int (int k) + 1"
    proof -
      have "0 < 1 / (2 * (of_nat t :: rat))" using tpos by simp
      then show ?thesis using xk rhi by linarith
    qed
    ultimately show ?thesis unfolding K_def by (intro floor_unique)
  qed
  have xK: "x + 1 / 2 = of_int K + of_nat r / (2 * of_nat t)" using xk Kk by simp
  have yx: "y \<le> x + 201 / 2 ^ 53" "x - 201 / 2 ^ 53 \<le> y" using err by (simp_all add: abs_if split: if_splits)
  have hi: "y + 1 / 2 < of_int K + 1" using yx(1) gap xK rhi by linarith
  have lo: "of_int (K - 1) \<le> y + 1 / 2"
  proof -
    have "of_int K - 1 \<le> y + 1 / 2" using yx(2) gap gap1 xK r0 by linarith
    then show ?thesis by simp
  qed
  have "\<lfloor>y + 1 / 2\<rfloor> = K \<or> \<lfloor>y + 1 / 2\<rfloor> = K - 1"
  proof (cases "of_int K \<le> y + 1 / 2")
    case True
    then have "\<lfloor>y + 1 / 2\<rfloor> = K" using hi by (intro floor_unique)
    then show ?thesis by simp
  next
    case False
    then have "\<lfloor>y + 1 / 2\<rfloor> = K - 1" using lo by (intro floor_unique) simp_all
    then show ?thesis by simp
  qed
  then show "completion_rate c t = spec_completion_rate c t \<or>
         completion_rate c t = spec_completion_rate c t - 1"
    by (simp add: cr sp)
  assume nz: "(200 * c + t) mod (2 * t) \<noteq> 0"
  then have "1 \<le> r" by (simp add: r_def n_def Suc_leI)
  then have "(of_nat 1 :: rat) \<le> of_nat r" by (simp only: of_nat_le_iff)
  then have rlo: "1 / (2 * of_nat t) \<le> (of_nat r :: rat) / (2 * of_nat t)"
    using tpos by (simp add: divide_right_mono)
  have "of_int K \<le> y + 1 / 2" using yx(2) gap xK rlo by linarith
  then have "\<lfloor>y + 1 / 2\<rfloor> = K" using hi by (intro floor_unique)
  then show "completion_rate c t = spec_completion_rate c t" by (simp add: cr sp)
qed

section \<open>Statistics\<close>

text \<open>
  C9 (amended). When the store answers the statistics query with a list of fewer than
  \<open>2 ^ 32\<close> rows, \<open>getTodoStats\<close> resolves to: \<open>total\<close> the length of the list, \<open>completed\<close>
  the number of rows whose flag is set, \<open>pending\<close> their difference, and a
  \<open>completionRate\<close> that is \<open>0\<close> for the empty list, that equals
  \<open>round(completed / total * 100)\<close> whenever \<open>completed / total * 100\<close> is not half-way
  between two integers, and that is this rounded value or one less in every case.
\<close>

theorem getTodoStats_aggregate:
  assumes "select_completed r = Response (Some rows) None" and "length rows < 2 ^ 32"
  shows "\<exists>st. fst (service_getTodoStats r) = Inr st \<and>
      total st = int (length rows) \<and>
      stats.completed st = int (length (filter (\<lambda>flag. flag) rows)) \<and>
      pending st = total st - stats.completed st \<and>
      (length rows = 0 \<longrightarrow> completionRate st = 0) \<and>
      ((200 * length (filter (\<lambda>flag. flag) rows) + length rows) mod (2 * length rows) \<noteq> 0 \<longrightarrow>
         completionRate st =
           spec_completion_rate (length (filter (\<lambda>flag. flag) rows)) (length rows)) \<and>
      (completionRate st =
           spec_completion_rate (length (filter (\<lambda>flag. flag) rows)) (length rows) \<or>
       completionRate st =
           spec_completion_rate (length (filter (\<lambda>flag. flag) rows)) (length rows) - 1)"
proof -
  define c where "c = length (filter (\<lambda>flag. flag) rows)"
  define t where "t = length rows"
  have ct: "c \<le> t" unfolding c_def t_def by (rule length_filter_le)
  have res: "fst (service_getTodoStats r) = Inr (stats_of_rows rows)"
    using assms(1) by (simp add: service_getTodoStats_def)
  have fields: "total (stats_of_rows rows) = int t"
    "stats.completed (stats_of_rows rows) = int c"
    "pending (stats_of_rows rows) = int t - int c"
    "completionRate (stats_of_rows rows) = completion_rate c t"
    by (simp_all add: stats_of_rows_def Let_def c_def t_def)
  have zero: "t = 0 \<longrightarrow> completion_rate c t = 0"
    by (simp add: completion_rate_def)
  have exact: "(200 * c + t) mod (2 * t) \<noteq> 0 \<longrightarrow> completion_rate c t = spec_completion_rate c t"
  proof (cases "t = 0")
    case True
    then show ?thesis using ct by simp
  next
    case False
    then show ?thesis using completion_rate_near(2)[of t c] ct assms(2) by (simp add: t_def)
  qed
  have near: "completion_rate c t = spec_completion_rate c t \<or>
      completion_rate c t = spec_completion_rate c t - 1"
  proof (cases "t = 0")
    case True
    then show ?thesis by (simp add: completion_rate_def spec_completion_rate_def)
  next
    case False
    then show ?thesis using completion_rate_near(1)[of t c] ct assms(2) by (simp add: t_def)
  qed
  show ?thesis
    unfolding c_def[symmetric] t_def[symmetric]
    using res fields zero exact near by (intro exI[of _ "stats_of_rows rows"]) simp
qed

theorem getTodoStats_aggregate_witness:
  "select_completed (failing_remote\<lparr>select_completed := Response (Some [True, False, True]) None\<rparr>)
     = Response (Some [True, False, True]) None \<and>
   length [True, False, True] < 2 ^ 32 \<and>
   (200 * length (filter (\<lambda>flag. flag) [True, False, True]) + length [True, False, True])
       mod (2 * length [True, False, True]) \<noteq> 0 \<and>
   (\<exists>st. fst (service_getTodoStats
              (failing_remote\<lparr>select_completed := Response (Some [True, False, True]) None\<rparr>))
            = Inr st \<and>
      total st = 3 \<and> stats.completed st = 2 \<and> pending st = 1 \<and> completionRate st = 67)"
proof -
  have sp: "spec_completion_rate (Suc (Suc 0)) (Suc (Suc (Suc 0))) = 67"
    by code_simp
  show ?thesis
    using getTodoStats_aggregate
      [of "failing_remote\<lparr>select_completed := Response (Some [True, False, True]) None\<rparr>"
          "[True, False, True]"]
    by (auto simp: sp)
qed

text \<open>
  The rate is computed in doubles: with 23 of 40 rows completed, \<open>23 / 40\<close> is the
  double just below \<open>0.575\<close>, its product with \<open>100\<close> is the double
  \<open>57.49999999999999\<close>, and \<open>Math.round\<close> gives \<open>57\<close>, where
  \<open>round(23 / 40 * 100) = round(57.5)\<close> is \<open>58\<close>.
\<close>

theorem completionRate_counterexample:
  "total (stats_of_rows (replicate 23 True @ replicate 17 False)) = 40 \<and>
   stats.completed (stats_of_rows (replicate 23 True @ replicate 17 False)) = 23 \<and>
   completionRate (stats_of_rows (replicate 23 True @ replicate 17 False)) = 57 \<and>
   spec_completion_rate 23 40 = 58"
proof -
  have "total (stats_of_rows (replicate 23 True @ replicate 17 False)) = 40"
    by code_simp
  moreover have "stats.completed (stats_of_rows (replicate 23 True @ replicate 17 False)) = 23"
    by code_simp
  moreover have "completionRate (stats_of_rows (replicate 23 True @ replicate 17 False)) = 57"
    by code_simp
  moreover have "spec_completion_rate 23 40 = 58"
    by (simp add: spec_completion_rate_def round_def)
  ultimately show ?thesis by simp
qed

section \<open>Failed mutations\<close>

lemma updateStats_todos: "todos (snd (updateStats r s)) = todos s"
  by (simp add: updateStats_def split: prod.splits sum.splits)

lemma failed_create:
  assumes "fst (service_createTodo r t (case d of None \<Rightarrow> [] | Some x \<Rightarrow> x)) = Inl e"
  shows "store_createTodo r t d s =
     (Inl e, snd (service_createTodo r t (case d of None \<Rightarrow> [] | Some x \<Rightarrow> x)),
      s\<lparr>loading := False, error := Some e\<rparr>)"
  using assms by (cases "service_createTodo r t (case d of None \<Rightarrow> [] | Some x \<Rightarrow> x)")
    (simp add: store_createTodo_def Let_def)

lemma failed_update:
  assumes "fst (service_updateTodo r i u) = Inl e"
  shows "store_updateTodo r i u s =
     (Inl e, snd (service_updateTodo r i u), s\<lparr>loading := False, error := Some e\<rparr>)"
  using assms by (cases "service_updateTodo r i u") (simp add: store_updateTodo_def Let_def)

lemma failed_delete:
  assumes "fst (service_deleteTodo r i) = Inl e"
  shows "store_deleteTodo r i s =
     (Inl e, snd (service_deleteTodo r i), s\<lparr>loading := False, error := Some e\<rparr>)"
  using assms by (cases "service_deleteTodo r i") (simp add: store_deleteTodo_def Let_def)

text \<open>
  C5. When the service call inside \<open>createTodo\<close>, \<open>updateTodo\<close>, \<open>toggleTodo\<close> or
  \<open>deleteTodo\<close> of the store rejects with an error, the action rejects with that error,
  and the collection and the statistics of the store are those from before the call.
\<close>

theorem failed_mutation_keeps_state:
  "(fst (service_createTodo r t (case d of None \<Rightarrow> [] | Some x \<Rightarrow> x)) = Inl e \<longrightarrow>
      fst (store_createTodo r t d s) = Inl e \<and>
      todos (snd (snd (store_createTodo r t d s))) = todos s \<and>
      stats (snd (snd (store_createTodo r t d s))) = stats s) \<and>
   (fst (service_updateTodo r i u) = Inl e \<longrightarrow>
      fst (store_updateTodo r i u s) = Inl e \<and>
      todos (snd (snd (store_updateTodo r i u s))) = todos s \<and>
      stats (snd (snd (store_updateTodo r i u s))) = stats s) \<and>
   (fst (service_updateTodo r i (Updates None None (Some c))) = Inl e \<longrightarrow>
      fst (store_toggleTodo r i c s) = Inl e \<and>
      todos (snd (snd (store_toggleTodo r i c s))) = todos s \<and>
      stats (snd (snd (store_toggleTodo r i c s))) = stats s) \<and>
   (fst (service_deleteTodo r i) = Inl e \<longrightarrow>
      fst (store_deleteTodo r i s) = Inl e \<and>
      todos (snd (snd (store_deleteTodo r i s))) = todos s \<and>
      stats (snd (snd (store_deleteTodo r i s))) = stats s)"
  by (simp add: failed_create failed_update failed_delete store_toggleTodo_def)

lemma failing_create: "service_createTodo failing_remote [97] [] = (Inl (Wrapped CreateOp NotAuthenticated), [GetUser])"
  by (simp add: service_createTodo_def failing_remote_def trim_def is_ws_def)

lemma failing_update: "service_updateTodo failing_remote ''a'' (Updates None None (Some True))
    = (Inl (Wrapped UpdateOp (StoreError ''offline'')), [Update ''a'' (Updates None None (Some True))])"
  by (simp add: service_updateTodo_def failing_remote_def)

lemma failing_delete: "service_deleteTodo failing_remote ''a''
    = (Inl (Wrapped DeleteOp (StoreError ''offline'')), [Delete ''a''])"
  by (simp add: service_deleteTodo_def failing_remote_def)

theorem failed_mutation_keeps_state_witness:
  "fst (service_createTodo failing_remote [97] (case None of None \<Rightarrow> [] | Some x \<Rightarrow> x))
      = Inl (Wrapped CreateOp NotAuthenticated) \<and>
   fst (store_createTodo failing_remote [97] None one_task_store)
      = Inl (Wrapped CreateOp NotAuthenticated) \<and>
   todos (snd (snd (store_createTodo failing_remote [97] None one_task_store)))
      = [sample_todo ''a'' False] \<and>
   stats (snd (snd (store_createTodo failing_remote [97] None one_task_store)))
      = stats one_task_store \<and>
   fst (service_updateTodo failing_remote ''a'' (Updates None None (Some True)))
      = Inl (Wrapped UpdateOp (StoreError ''offline'')) \<and>
   todos (snd (snd (store_updateTodo failing_remote ''a'' (Updates None None (Some True)) one_task_store)))
      = [sample_todo ''a'' False] \<and>
   todos (snd (snd (store_toggleTodo failing_remote ''a'' True one_task_store)))
      = [sample_todo ''a'' False] \<and>
   fst (service_deleteTodo failing_remote ''a'') = Inl (Wrapped DeleteOp (StoreError ''offline'')) \<and>
   fst (store_deleteTodo failing_remote ''a'' one_task_store)
      = Inl (Wrapped DeleteOp (StoreError ''offline'')) \<and>
   todos (snd (snd (store_deleteTodo failing_remote ''a'' one_task_store)))
      = [sample_todo ''a'' False]"
  using
    failed_mutation_keeps_state [of failing_remote "[97]" None "Wrapped CreateOp NotAuthenticated"
       one_task_store "''a''" "Updates None None (Some True)" True]
    failed_mutation_keeps_state [of failing_remote "[97]" None "Wrapped UpdateOp (StoreError ''offline'')"
       one_task_store "''a''" "Updates None None (Some True)" True]
    failed_mutation_keeps_state [of failing_remote "[97]" None "Wrapped DeleteOp (StoreError ''offline'')"
       one_task_store "''a''" "Updates None None (Some True)" True]
  by (simp add: failing_create failing_update failing_delete one_task_store_def)

section \<open>Validation in createTodo\<close>

lemma trim_Nil: "trim [] = []"
  by (simp add: trim_def)

lemma service_createTodo_blank:
  assumes "trim t = []"
  shows "service_createTodo r t d = (Inl (Wrapped CreateOp TitleRequired), [])"
  using assms by (simp add: service_createTodo_def)

lemma service_createTodo_authenticated:
  assumes "trim t \<noteq> []" and "getUser r = Response (Some uid) None"
  shows "snd (service_createTodo r t d) = [GetUser, Insert (trim t) (trim d) uid]"
proof -
  have "t \<noteq> []" using assms(1) trim_Nil by auto
  then show ?thesis
    using assms by (simp add: service_createTodo_def split: sum.splits)
qed

lemma service_createTodo_inserts:
  assumes "Insert t' d' u \<in> set (snd (service_createTodo r t d))"
  shows "t' = trim t \<and> t' \<noteq> [] \<and> d' = trim d"
proof -
  obtain w ue where g: "getUser r = Response w ue" by (cases "getUser r")
  show ?thesis
    using assms g
    by (cases ue; cases w)
      (auto simp: service_createTodo_def split: sum.splits if_splits)
qed

text \<open>
  C7. For a title that is empty or only whitespace, \<open>createTodo\<close> of the store rejects
  with the error of the title check, no request has been sent to the remote store, and
  the collection is unchanged. For any other title, the only requests sent by the task
  service are the user lookup and, for an authenticated user, one insert whose title and
  description are the trimmed arguments (the description defaulting to the empty string).
\<close>

theorem createTodo_validates_and_trims:
  "(trim t = [] \<longrightarrow>
      fst (store_createTodo r t d s) = Inl (Wrapped CreateOp TitleRequired) \<and>
      fst (snd (store_createTodo r t d s)) = [] \<and>
      todos (snd (snd (store_createTodo r t d s))) = todos s) \<and>
   (trim t \<noteq> [] \<longrightarrow> getUser r = Response (Some uid) None \<longrightarrow>
      snd (service_createTodo r t (case d of None \<Rightarrow> [] | Some x \<Rightarrow> x)) =
        [GetUser, Insert (trim t) (trim (case d of None \<Rightarrow> [] | Some x \<Rightarrow> x)) uid]) \<and>
   (\<forall>t' d' u. Insert t' d' u \<in> set (fst (snd (store_createTodo r t d s))) \<longrightarrow>
      t' = trim t \<and> t' \<noteq> [] \<and> d' = trim (case d of None \<Rightarrow> [] | Some x \<Rightarrow> x))"
proof (intro conjI impI allI)
  assume b: "trim t = []"
  then show "fst (store_createTodo r t d s) = Inl (Wrapped CreateOp TitleRequired)"
    and "fst (snd (store_createTodo r t d s)) = []"
    and "todos (snd (snd (store_createTodo r t d s))) = todos s"
    by (simp_all add: store_createTodo_def service_createTodo_blank Let_def)
next
  assume "trim t \<noteq> []" and "getUser r = Response (Some uid) None"
  then show "snd (service_createTodo r t (case d of None \<Rightarrow> [] | Some x \<Rightarrow> x)) =
        [GetUser, Insert (trim t) (trim (case d of None \<Rightarrow> [] | Some x \<Rightarrow> x)) uid]"
    by (rule service_createTodo_authenticated)
next
  fix t' d' u
  let ?d = "case d of None \<Rightarrow> [] | Some x \<Rightarrow> x"
  assume ins: "Insert t' d' u \<in> set (fst (snd (store_createTodo r t d s)))"
  have calls: "fst (snd (store_createTodo r t d s)) =
      snd (service_createTodo r t ?d) @
      (case fst (service_createTodo r t ?d) of Inl e \<Rightarrow> [] | Inr row \<Rightarrow> [SelectCompleted])"
    by (cases "service_createTodo r t ?d")
      (auto simp: store_createTodo_def Let_def updateStats_def service_getTodoStats_def
         split: sum.splits prod.splits response.splits option.splits)
  have ins': "Insert t' d' u \<in> set (snd (service_createTodo r t ?d))"
    using ins unfolding calls by (auto split: sum.splits)
  from service_createTodo_inserts[OF ins']
  show "t' = trim t" and "t' \<noteq> []" and "d' = trim ?d" by auto
qed

theorem createTodo_validates_and_trims_witness:
  "trim [32, 32] = [] \<and>
   fst (store_createTodo working_remote [32, 32] (Some [100]) one_task_store)
      = Inl (Wrapped CreateOp TitleRequired) \<and>
   fst (snd (store_createTodo working_remote [32, 32] (Some [100]) one_task_store)) = [] \<and>
   todos (snd (snd (store_createTodo working_remote [32, 32] (Some [100]) one_task_store)))
      = [sample_todo ''a'' False] \<and>
   trim [32, 97, 32] \<noteq> [] \<and> getUser working_remote = Response (Some ''u1'') None \<and>
   snd (service_createTodo working_remote [32, 97, 32] [98, 32])
      = [GetUser, Insert [97] [98] ''u1''] \<and>
   Insert [97] [98] ''u1''
      \<in> set (fst (snd (store_createTodo working_remote [32, 97, 32] (Some [98, 32]) one_task_store)))"
proof -
  have t1: "trim [32, 32] = []" and t2: "trim [32, 97, 32] = [97]" and t3: "trim [98, 32] = [98]"
    by (simp_all add: trim_def is_ws_def)
  have g: "getUser working_remote = Response (Some ''u1'') None"
    by (simp add: working_remote_def)
  have i: "Insert [97] [98] ''u1''
      \<in> set (fst (snd (store_createTodo working_remote [32, 97, 32] (Some [98, 32]) one_task_store)))"
    by (simp add: store_createTodo_def service_createTodo_def working_remote_def t2 t3 Let_def
          updateStats_def service_getTodoStats_def)
  have o: "todos one_task_store = [sample_todo ''a'' False]"
    by (simp add: one_task_store_def)
  show ?thesis
    using createTodo_validates_and_trims
        [of "[32, 32]" working_remote "Some [100]" one_task_store "''u1''"]
      createTodo_validates_and_trims
        [of "[32, 97, 32]" working_remote "Some [98, 32]" one_task_store "''u1''"]
    by (simp add: t1 t2 t3 g i o)
qed

section \<open>Updates\<close>

lemma succeeded_update:
  assumes "fst (service_updateTodo r i u) = Inr row"
  shows "todos (snd (snd (store_updateTodo r i u s))) =
           map (\<lambda>t. if todo_id t = i then row else t) (todos s)"
  using assms
  by (cases "service_updateTodo r i u")
    (simp add: store_updateTodo_def Let_def updateStats_todos case_prod_beta)

lemma handled_update:
  "todos (snd (handle_payload r (UPDATE n) s)) =
     map (\<lambda>t. if todo_id t = todo_id n then n else t) (todos s)"
  by (simp add: handle_payload_def updateStats_todos)

lemma replace_absent:
  assumes "i \<notin> set (map todo_id ts)"
  shows "map (\<lambda>t. if todo_id t = i then row else t) ts = ts"
  using assms by (induction ts) auto

text \<open>
  C3 (amended). After a successful \<open>updateTodo\<close> of the store, and after a realtime
  \<open>UPDATE\<close> event, the collection has the length it had, and at every position holds
  the returned (delivered) task where the entry had the id of the update and the entry
  it held otherwise. When no entry has that id, the collection is exactly what it was:
  the task is not inserted.
\<close>

theorem update_replaces_in_place:
  "(fst (service_updateTodo r i u) = Inr row \<longrightarrow>
      length (todos (snd (snd (store_updateTodo r i u s)))) = length (todos s) \<and>
      (\<forall>k < length (todos s).
         todos (snd (snd (store_updateTodo r i u s))) ! k =
           (if todo_id (todos s ! k) = i then row else todos s ! k)) \<and>
      (i \<notin> set (map todo_id (todos s)) \<longrightarrow>
         todos (snd (snd (store_updateTodo r i u s))) = todos s)) \<and>
   length (todos (snd (handle_payload r (UPDATE n) s))) = length (todos s) \<and>
   (\<forall>k < length (todos s).
      todos (snd (handle_payload r (UPDATE n) s)) ! k =
        (if todo_id (todos s ! k) = todo_id n then n else todos s ! k)) \<and>
   (todo_id n \<notin> set (map todo_id (todos s)) \<longrightarrow>
      todos (snd (handle_payload r (UPDATE n) s)) = todos s)"
  by (simp add: succeeded_update handled_update replace_absent)


lemma working_update:
  "service_updateTodo working_remote (x # xs) (Updates None None (Some True)) =
     (Inr (sample_todo (x # xs) True), [Update (x # xs) (Updates None None (Some True))])"
  by (simp add: service_updateTodo_def working_remote_def)

theorem update_replaces_in_place_witness:
  "fst (service_updateTodo working_remote ''a'' (Updates None None (Some True))) =
      Inr (sample_todo ''a'' True) \<and>
   (0::nat) < length (todos one_task_store) \<and>
   todos (snd (snd (store_updateTodo working_remote ''a'' (Updates None None (Some True))
      one_task_store))) ! 0 = sample_todo ''a'' True \<and>
   length (todos (snd (snd (store_updateTodo working_remote ''a'' (Updates None None (Some True))
      one_task_store)))) = 1 \<and>
   fst (service_updateTodo working_remote ''zz'' (Updates None None (Some True))) =
      Inr (sample_todo ''zz'' True) \<and>
   ''zz'' \<notin> set (map todo_id (todos one_task_store)) \<and>
   todos (snd (snd (store_updateTodo working_remote ''zz'' (Updates None None (Some True))
      one_task_store))) = todos one_task_store \<and>
   todos (snd (handle_payload working_remote (UPDATE (sample_todo ''a'' True)) one_task_store)) ! 0
      = sample_todo ''a'' True \<and>
   todo_id (sample_todo ''zz'' True) \<notin> set (map todo_id (todos one_task_store)) \<and>
   todos (snd (handle_payload working_remote (UPDATE (sample_todo ''zz'' True)) one_task_store))
      = todos one_task_store"
proof -
  have o: "todos one_task_store = [sample_todo ''a'' False]"
    by (simp add: one_task_store_def)
  have ids: "todo_id (sample_todo ''a'' False) = ''a''" "todo_id (sample_todo ''a'' True) = ''a''"
    "todo_id (sample_todo ''zz'' True) = ''zz''"
    by (simp_all add: sample_todo_def)
  show ?thesis
    using update_replaces_in_place
        [of working_remote "''a''" "Updates None None (Some True)" "sample_todo ''a'' True"
           one_task_store "sample_todo ''a'' True"]
      update_replaces_in_place
        [of working_remote "''zz''" "Updates None None (Some True)" "sample_todo ''zz'' True"
           one_task_store "sample_todo ''zz'' True"]
    by (simp add: working_update o ids)
qed

text \<open>
  An update for an id the collection does not hold: the service resolves with the row
  \<open>zz\<close>, a realtime \<open>UPDATE\<close> delivers it, and in both cases the collection still holds
  the one task \<open>a\<close> and not \<open>zz\<close>.
\<close>

theorem update_absent_counterexample:
  "''zz'' \<notin> set (map todo_id (todos one_task_store)) \<and>
   fst (store_updateTodo working_remote ''zz'' (Updates None None (Some True)) one_task_store)
      = Inr (sample_todo ''zz'' True) \<and>
   todos (snd (snd (store_updateTodo working_remote ''zz'' (Updates None None (Some True))
      one_task_store))) = [sample_todo ''a'' False] \<and>
   todos (snd (handle_payload working_remote (UPDATE (sample_todo ''zz'' True)) one_task_store))
      = [sample_todo ''a'' False]"
proof -
  have o: "todos one_task_store = [sample_todo ''a'' False]"
    by (simp add: one_task_store_def)
  have ids: "todo_id (sample_todo ''a'' False) = ''a''" "todo_id (sample_todo ''zz'' True) = ''zz''"
    by (simp_all add: sample_todo_def)
  have "fst (store_updateTodo working_remote ''zz'' (Updates None None (Some True)) one_task_store)
      = Inr (sample_todo ''zz'' True)"
    by (simp add: store_updateTodo_def working_update Let_def case_prod_beta)
  then show ?thesis
    by (simp add: succeeded_update working_update handled_update o ids)
qed

section \<open>The subscription\<close>

lemma subscribe_stored:
  assumes "channel s = Some c"
  shows "subscribeToRealtime r s = (Noop, [], s)"
  using assms by (simp add: subscribeToRealtime_def)

lemma subscribe_all_stored:
  assumes "channel s = Some c"
  shows "subscribe_all rs s = ([], s)"
  using assms by (induction rs) (simp_all add: subscribe_stored)

text \<open>
  C8. While a channel is stored, \<open>subscribeToRealtime\<close> creates no channel, leaves the
  store as it is and returns a function that does nothing; any number of further calls
  behave the same. When no channel is stored, a call creates one channel and stores it,
  and of any number of calls made one after the other only the first creates a channel.
\<close>

theorem subscribe_is_guarded:
  "(channel s = Some c \<longrightarrow>
      subscribeToRealtime r s = (Noop, [], s) \<and>
      run_cleanup Noop s' = ([], s') \<and>
      subscribe_all rs s = ([], s)) \<and>
   (channel s = None \<longrightarrow>
      (\<exists>ch. subscribeToRealtime r s =
              (Unsubscribe ch, [ch], s\<lparr>channel := Some ch, realtimeEnabled := True\<rparr>) \<and>
            subscribe_all (r # rs) s = ([ch], s\<lparr>channel := Some ch, realtimeEnabled := True\<rparr>)))"
proof -
  have stored: "channel s = Some c \<longrightarrow>
      subscribeToRealtime r s = (Noop, [], s) \<and>
      run_cleanup Noop s' = ([], s') \<and> subscribe_all rs s = ([], s)"
    by (simp add: subscribe_stored subscribe_all_stored run_cleanup_def)
  have fresh: "\<exists>ch. subscribeToRealtime r s =
              (Unsubscribe ch, [ch], s\<lparr>channel := Some ch, realtimeEnabled := True\<rparr>) \<and>
            subscribe_all (r # rs) s = ([ch], s\<lparr>channel := Some ch, realtimeEnabled := True\<rparr>)"
    if n: "channel s = None"
  proof -
    define ch where "ch = \<lparr>topic = ''todos-changes'', event = ''*'', schema = ''public'',
                 table_name = ''todos'', row_filter = realtime_filter r\<rparr>"
    have first: "subscribeToRealtime r s =
        (Unsubscribe ch, [ch], s\<lparr>channel := Some ch, realtimeEnabled := True\<rparr>)"
      using n by (simp add: subscribeToRealtime_def ch_def Let_def)
    have "channel (s\<lparr>channel := Some ch, realtimeEnabled := True\<rparr>) = Some ch" by simp
    then have rest: "subscribe_all rs (s\<lparr>channel := Some ch, realtimeEnabled := True\<rparr>) =
        ([], s\<lparr>channel := Some ch, realtimeEnabled := True\<rparr>)"
      by (rule subscribe_all_stored)
    have "subscribe_all (r # rs) s = ([ch], s\<lparr>channel := Some ch, realtimeEnabled := True\<rparr>)"
      by (simp add: first rest)
    then show ?thesis using first by blast
  qed
  show ?thesis using stored fresh by blast
qed

theorem subscribe_is_guarded_witness:
  "channel initial_store = None \<and>
   length (fst (subscribe_all [working_remote, failing_remote, working_remote] initial_store)) = 1 \<and>
   channel (snd (snd (subscribeToRealtime working_remote initial_store))) \<noteq> None \<and>
   channel (snd (snd (subscribeToRealtime working_remote initial_store)))
     = Some \<lparr>topic = ''todos-changes'', event = ''*'', schema = ''public'',
               table_name = ''todos'', row_filter = realtime_filter working_remote\<rparr> \<and>
   subscribeToRealtime failing_remote (snd (snd (subscribeToRealtime working_remote initial_store)))
     = (Noop, [], snd (snd (subscribeToRealtime working_remote initial_store)))"
proof -
  define s1 where "s1 = snd (snd (subscribeToRealtime working_remote initial_store))"
  have n: "channel initial_store = None" by (simp add: initial_store_def)
  have c1: "channel s1 = Some \<lparr>topic = ''todos-changes'', event = ''*'', schema = ''public'',
               table_name = ''todos'', row_filter = realtime_filter working_remote\<rparr>"
    using n by (simp add: s1_def subscribeToRealtime_def Let_def)
  show ?thesis
    using subscribe_is_guarded
        [of initial_store "\<lparr>topic = [], event = [], schema = [], table_name = [], row_filter = []\<rparr>"
            working_remote initial_store "[failing_remote, working_remote]"]
      subscribe_is_guarded
        [of s1 "\<lparr>topic = ''todos-changes'', event = ''*'', schema = ''public'',
               table_name = ''todos'', row_filter = realtime_filter working_remote\<rparr>"
            failing_remote initial_store "[]"]
      n c1
    unfolding s1_def[symmetric] by auto
qed

text \<open>
  C4. The filter of the subscription is the constant \<open>user_id=eq.undefined\<close>, whatever
  the authentication service would answer: the channel a call creates carries it, and
  for a signed-in user whose id is not the word \<open>undefined\<close> it is not the filter
  \<open>user_id=eq.\<close> followed by that id.
\<close>

theorem realtime_filter_is_undefined:
  "realtime_filter r = ''user_id=eq.undefined'' \<and>
   (channel s = None \<longrightarrow>
      map row_filter (fst (snd (subscribeToRealtime r s))) = [''user_id=eq.undefined'']) \<and>
   (getUser r = Response (Some uid) None \<longrightarrow> uid \<noteq> ''undefined'' \<longrightarrow>
      realtime_filter r \<noteq> ''user_id=eq.'' @ uid)"
proof -
  have f: "realtime_filter r = ''user_id=eq.undefined''"
    by (cases "getUser r")
      (simp add: realtime_filter_def auth_getUser_def js_or_def opt_chain_def)
  show ?thesis
    by (simp add: f subscribeToRealtime_def Let_def)
qed

theorem realtime_filter_is_undefined_witness:
  "channel initial_store = None \<and>
   getUser working_remote = Response (Some ''u1'') None \<and> ''u1'' \<noteq> ''undefined'' \<and>
   map row_filter (fst (snd (subscribeToRealtime working_remote initial_store)))
     = [''user_id=eq.undefined''] \<and>
   realtime_filter working_remote \<noteq> ''user_id=eq.u1''"
  using realtime_filter_is_undefined [of working_remote initial_store "''u1''"]
  by (simp add: initial_store_def working_remote_def)

section \<open>Deleting\<close>

text \<open>
  C6. The remote store removes no row and answers the delete without an error:
  \<open>deleteTodo\<close> of the task service resolves, and \<open>deleteTodo\<close> of the store resolves too
  and keeps the collection. The controller of the backend answers the same situation
  with status 404.
\<close>

theorem deleteTodo_zero_rows_resolves:
  "rows_deleted (delete_row (working_remote\<lparr>delete_row := (\<lambda>i. DeleteResponse 0 None)\<rparr>) ''zz'') = 0 \<and>
   service_deleteTodo (working_remote\<lparr>delete_row := (\<lambda>i. DeleteResponse 0 None)\<rparr>) ''zz''
     = (Inr (), [Delete ''zz'']) \<and>
   fst (store_deleteTodo (working_remote\<lparr>delete_row := (\<lambda>i. DeleteResponse 0 None)\<rparr>) ''zz''
          one_task_store) = Inr () \<and>
   todos (snd (snd (store_deleteTodo (working_remote\<lparr>delete_row := (\<lambda>i. DeleteResponse 0 None)\<rparr>)
          ''zz'' one_task_store))) = [sample_todo ''a'' False] \<and>
   controller_deleteTodo accepting_backend ''u1'' sample_uuid = Reply 404 (ErrorBody TaskNotFound)"
proof -
  have u: "is_uuid sample_uuid"
    by (simp add: is_uuid_def sample_uuid_def is_hex_def)
  have d: "service_deleteTodo (working_remote\<lparr>delete_row := (\<lambda>i. DeleteResponse 0 None)\<rparr>) ''zz''
     = (Inr (), [Delete ''zz''])"
    by (simp add: service_deleteTodo_def)
  have o: "todos one_task_store = [sample_todo ''a'' False]"
    by (simp add: one_task_store_def)
  have i: "todo_id (sample_todo ''a'' False) = ''a''"
    by (simp add: sample_todo_def)
  show ?thesis
    by (simp add: d u store_deleteTodo_def Let_def case_prod_beta updateStats_todos o i
          controller_deleteTodo_def accepting_backend_def)
qed

section \<open>The collection and the statistics after an operation\<close>

lemmas step_unfold = step.simps

declare step.simps [simp del]

lemma updateStats_stats:
  "stats (snd (updateStats r s)) =
     (case select_completed r of
        Response d None \<Rightarrow> stats_of_rows (case d of None \<Rightarrow> [] | Some rows \<Rightarrow> rows)
      | Response d (Some m) \<Rightarrow> stats s)"
  by (simp add: updateStats_def service_getTodoStats_def split: response.splits option.splits)

lemma getTodoStats_result:
  "fst (service_getTodoStats r) =
     (case select_completed r of
        Response d None \<Rightarrow> Inr (stats_of_rows (case d of None \<Rightarrow> [] | Some rows \<Rightarrow> rows))
      | Response d (Some m) \<Rightarrow> Inl (Wrapped StatsOp (StoreError m)))"
  by (simp add: service_getTodoStats_def split: response.splits option.splits)

lemma step_fetch:
  "step (FetchTodos r) s =
     (case fst (service_getTodos r) of
        Inl e \<Rightarrow> s\<lparr>loading := False, error := Some e\<rparr>
      | Inr ts \<Rightarrow>
          (case fst (service_getTodoStats r) of
             Inl e \<Rightarrow> s\<lparr>loading := False, error := Some e\<rparr>
           | Inr st \<Rightarrow> s\<lparr>loading := False, error := None, todos := ts, stats := st\<rparr>))"
  by (cases "service_getTodos r"; cases "service_getTodoStats r")
    (simp add: step_unfold store_fetchTodos_def Let_def split: sum.splits)

lemma step_create:
  "step (CreateTodo r t d) s =
     (case fst (service_createTodo r t (case d of None \<Rightarrow> [] | Some x \<Rightarrow> x)) of
        Inl e \<Rightarrow> s\<lparr>loading := False, error := Some e\<rparr>
      | Inr row \<Rightarrow> snd (updateStats r (s\<lparr>error := None, todos := row # todos s, loading := False\<rparr>)))"
  by (cases "service_createTodo r t (case d of None \<Rightarrow> [] | Some x \<Rightarrow> x)")
    (simp add: step_unfold store_createTodo_def Let_def case_prod_beta split: sum.splits)

lemma step_update:
  "step (UpdateTodo r i u) s =
     (case fst (service_updateTodo r i u) of
        Inl e \<Rightarrow> s\<lparr>loading := False, error := Some e\<rparr>
      | Inr row \<Rightarrow>
          snd (updateStats r (s\<lparr>error := None,
                 todos := map (\<lambda>t. if todo_id t = i then row else t) (todos s),
                 loading := False\<rparr>)))"
  by (cases "service_updateTodo r i u")
    (simp add: step_unfold store_updateTodo_def Let_def case_prod_beta split: sum.splits)

lemma step_toggle: "step (ToggleTodo r i c) s = step (UpdateTodo r i (Updates None None (Some c))) s"
  by (simp add: step_unfold store_toggleTodo_def)

lemma step_delete:
  "step (DeleteTodo r i) s =
     (case fst (service_deleteTodo r i) of
        Inl e \<Rightarrow> s\<lparr>loading := False, error := Some e\<rparr>
      | Inr u \<Rightarrow>
          snd (updateStats r (s\<lparr>error := None,
                 todos := filter (\<lambda>t. todo_id t \<noteq> i) (todos s),
                 loading := False\<rparr>)))"
  by (cases "service_deleteTodo r i")
    (simp add: step_unfold store_deleteTodo_def Let_def case_prod_beta split: sum.splits)

lemma step_event:
  "step (RealtimeEvent r p) s =
     snd (updateStats r (s\<lparr>todos :=
       (case p of
          INSERT n \<Rightarrow> n # todos s
        | UPDATE n \<Rightarrow> map (\<lambda>t. if todo_id t = todo_id n then n else t) (todos s)
        | DELETE i \<Rightarrow> filter (\<lambda>t. todo_id t \<noteq> i) (todos s))\<rparr>))"
  by (cases p) (simp_all add: step_unfold handle_payload_def)

lemma ids_replace:
  assumes "todo_id row = i"
  shows "map todo_id (map (\<lambda>t. if todo_id t = i then row else t) ts) = map todo_id ts"
  using assms by (induction ts) auto

lemma ids_replace_comp:
  "todo_id \<circ> (\<lambda>t. if todo_id t = todo_id row then row else t) = todo_id"
  by (auto simp: fun_eq_iff)

lemma step_distinct:
  assumes "distinct (map todo_id (todos s))" and "op_fresh x s"
  shows "distinct (map todo_id (todos (step x s)))"
proof (cases x)
  case (FetchTodos r)
  then show ?thesis using assms by (auto simp: step_fetch split: sum.splits)
next
  case (CreateTodo r t d)
  then show ?thesis using assms by (auto simp: step_create updateStats_todos split: sum.splits)
next
  case (UpdateTodo r i u)
  then show ?thesis using assms
    by (auto simp: step_update updateStats_todos ids_replace ids_replace_comp split: sum.splits)
next
  case (ToggleTodo r i c)
  then show ?thesis using assms
    by (auto simp: step_toggle step_update updateStats_todos ids_replace ids_replace_comp split: sum.splits)
next
  case (DeleteTodo r i)
  then show ?thesis using assms
    by (auto simp: step_delete updateStats_todos distinct_map_filter split: sum.splits)
next
  case (RealtimeEvent r p)
  then show ?thesis using assms
    by (cases p) (auto simp: step_event updateStats_todos ids_replace ids_replace_comp distinct_map_filter)
qed

lemma run_distinct:
  assumes "distinct (map todo_id (todos s))" and "fresh_ids xs s"
  shows "distinct (map todo_id (todos (run xs s)))"
  using assms
proof (induction xs arbitrary: s)
  case Nil
  then show ?case by simp
next
  case (Cons x xs)
  from Cons.prems have "distinct (map todo_id (todos (step x s)))" and "fresh_ids xs (step x s)"
    by (simp_all add: step_distinct)
  then show ?case using Cons.IH by simp
qed

text \<open>
  C1 (amended). Take a collection with distinct ids and a sequence of \<open>fetchTodos\<close>,
  \<open>createTodo\<close>, \<open>updateTodo\<close>, \<open>toggleTodo\<close>, \<open>deleteTodo\<close> and realtime events in which
  every created or inserted task has an id the collection does not hold when it arrives,
  every update is answered with the row of the id asked for and every fetched list has
  distinct ids: the resulting collection has no two entries with the same id. A
  realtime \<open>INSERT\<close> event puts its task at the head of the collection in every case.
\<close>

theorem fresh_ids_keep_collection_distinct:
  "(distinct (map todo_id (todos s)) \<longrightarrow> fresh_ids xs s \<longrightarrow>
      distinct (map todo_id (todos (run xs s)))) \<and>
   todos (step (RealtimeEvent r (INSERT n)) s) = n # todos s"
  by (simp add: run_distinct step_event updateStats_todos)


lemma working_create:
  "service_createTodo working_remote [97] [] =
     (Inr (sample_todo ''n1'' False), [GetUser, Insert [97] [] ''u1''])"
  by (simp add: service_createTodo_def working_remote_def trim_def is_ws_def sample_todo_def)

lemma working_toggle:
  "service_updateTodo working_remote ''n1'' (Updates None None (Some True)) =
     (Inr (sample_todo ''n1'' True), [Update ''n1'' (Updates None None (Some True))])"
  by (simp add: service_updateTodo_def working_remote_def)

lemma working_delete:
  "service_deleteTodo working_remote ''n1'' = (Inr (), [Delete ''n1''])"
  by (simp add: service_deleteTodo_def working_remote_def)

lemma sample_id: "todo_id (sample_todo i c) = i"
  by (simp add: sample_todo_def)

lemma initial_todos: "todos initial_store = []"
  by (simp add: initial_store_def)

theorem fresh_ids_keep_collection_distinct_witness:
  "distinct (map todo_id (todos initial_store)) \<and>
   fresh_ids
     [CreateTodo working_remote [97] None,
      RealtimeEvent working_remote (UPDATE (sample_todo ''n1'' True)),
      RealtimeEvent working_remote (INSERT (sample_todo ''b'' False)),
      ToggleTodo working_remote ''n1'' True,
      DeleteTodo working_remote ''n1'']
     initial_store \<and>
   distinct (map todo_id (todos (run
     [CreateTodo working_remote [97] None,
      RealtimeEvent working_remote (UPDATE (sample_todo ''n1'' True)),
      RealtimeEvent working_remote (INSERT (sample_todo ''b'' False)),
      ToggleTodo working_remote ''n1'' True,
      DeleteTodo working_remote ''n1'']
     initial_store))) \<and>
   todos (step (RealtimeEvent working_remote (INSERT (sample_todo ''b'' False))) initial_store)
     = [sample_todo ''b'' False]"
proof -
  have f: "fresh_ids
     [CreateTodo working_remote [97] None,
      RealtimeEvent working_remote (UPDATE (sample_todo ''n1'' True)),
      RealtimeEvent working_remote (INSERT (sample_todo ''b'' False)),
      ToggleTodo working_remote ''n1'' True,
      DeleteTodo working_remote ''n1'']
     initial_store"
    by (simp add: step_create step_event step_toggle step_update working_create working_toggle
          updateStats_todos sample_id initial_todos)
  show ?thesis
    using fresh_ids_keep_collection_distinct
      [of initial_store
          "[CreateTodo working_remote [97] None,
            RealtimeEvent working_remote (UPDATE (sample_todo ''n1'' True)),
            RealtimeEvent working_remote (INSERT (sample_todo ''b'' False)),
            ToggleTodo working_remote ''n1'' True,
            DeleteTodo working_remote ''n1'']"
          working_remote "sample_todo ''b'' False"]
      f
    by (simp add: initial_todos)
qed

text \<open>
  A task is created, and the realtime feed then delivers the \<open>INSERT\<close> event of that
  same row: the collection holds the task twice.
\<close>

theorem insert_echo_counterexample:
  "distinct (map todo_id (todos initial_store)) \<and>
   todos (run [CreateTodo working_remote [97] None,
               RealtimeEvent working_remote (INSERT (sample_todo ''n1'' False))] initial_store)
     = [sample_todo ''n1'' False, sample_todo ''n1'' False] \<and>
   \<not> distinct (map todo_id (todos (run [CreateTodo working_remote [97] None,
               RealtimeEvent working_remote (INSERT (sample_todo ''n1'' False))] initial_store)))"
  by (simp add: step_create step_event working_create updateStats_todos sample_id initial_todos)

text \<open>
  C2 (amended). After an operation of the store, the statistics are those that
  \<open>getTodoStats\<close> computes from the rows the remote store returned for the statistics
  query of that operation, not from the local collection: when the service call of the
  operation rejects, the statistics and the collection are unchanged; when it resolves
  and the statistics query fails, the statistics are unchanged; when it resolves and
  the query answers with rows, the statistics are the aggregate of these rows, and so
  they are the aggregate of the local collection when the rows carry the \<open>completed\<close>
  flags of the local collection.
\<close>

theorem stats_follow_remote_rows:
  "(\<not> gateway_ok x \<longrightarrow> stats (step x s) = stats s \<and> todos (step x s) = todos s) \<and>
   (gateway_ok x \<longrightarrow> select_completed (remote_of x) = Response d (Some m) \<longrightarrow>
      stats (step x s) = stats s) \<and>
   (gateway_ok x \<longrightarrow> select_completed (remote_of x) = Response d None \<longrightarrow>
      stats (step x s) = stats_of_rows (case d of None \<Rightarrow> [] | Some rows \<Rightarrow> rows)) \<and>
   (gateway_ok x \<longrightarrow>
      select_completed (remote_of x) = Response (Some (map completed (todos (step x s)))) None \<longrightarrow>
      stats (step x s) = stats_of_rows (map completed (todos (step x s))))"
proof (cases x)
  case (FetchTodos r)
  then show ?thesis
    by (cases "fst (service_getTodos r)")
      (auto simp: step_fetch getTodoStats_result split: sum.splits)
next
  case (CreateTodo r t c)
  then show ?thesis
    by (cases "fst (service_createTodo r t (case c of None \<Rightarrow> [] | Some x \<Rightarrow> x))")
      (auto simp: step_create updateStats_stats updateStats_todos)
next
  case (UpdateTodo r i u)
  then show ?thesis
    by (cases "fst (service_updateTodo r i u)")
      (auto simp: step_update updateStats_stats updateStats_todos)
next
  case (ToggleTodo r i c)
  then show ?thesis
    by (cases "fst (service_updateTodo r i (Updates None None (Some c)))")
      (auto simp: step_toggle step_update updateStats_stats updateStats_todos)
next
  case (DeleteTodo r i)
  then show ?thesis
    by (cases "fst (service_deleteTodo r i)")
      (auto simp: step_delete updateStats_stats updateStats_todos)
next
  case (RealtimeEvent r p)
  then show ?thesis
    by (auto simp: step_event updateStats_stats updateStats_todos)
qed


lemma unanswered_create:
  "service_createTodo (working_remote\<lparr>select_completed := a\<rparr>) [97] [] =
     (Inr (sample_todo ''n1'' False), [GetUser, Insert [97] [] ''u1''])"
  by (simp add: service_createTodo_def working_remote_def trim_def is_ws_def sample_todo_def)

lemma failing_create_result:
  "fst (service_createTodo failing_remote [97] []) = Inl (Wrapped CreateOp NotAuthenticated)"
  by (simp add: service_createTodo_def failing_remote_def trim_def is_ws_def)

lemma sample_completed: "completed (sample_todo i c) = c"
  by (simp add: sample_todo_def)

theorem stats_follow_remote_rows_witness:
  "\<not> gateway_ok (CreateTodo failing_remote [97] None) \<and>
   stats (step (CreateTodo failing_remote [97] None) one_task_store) = stats one_task_store \<and>
   todos (step (CreateTodo failing_remote [97] None) one_task_store) = todos one_task_store \<and>
   gateway_ok (CreateTodo (working_remote\<lparr>select_completed := Response None (Some ''offline'')\<rparr>)
     [97] None) \<and>
   select_completed (remote_of (CreateTodo
     (working_remote\<lparr>select_completed := Response None (Some ''offline'')\<rparr>) [97] None))
     = Response None (Some ''offline'') \<and>
   stats (step (CreateTodo (working_remote\<lparr>select_completed := Response None (Some ''offline'')\<rparr>)
     [97] None) one_task_store) = stats one_task_store \<and>
   gateway_ok (CreateTodo working_remote [97] None) \<and>
   select_completed (remote_of (CreateTodo working_remote [97] None))
     = Response (Some (map completed (todos (step (CreateTodo working_remote [97] None)
          initial_store)))) None \<and>
   stats (step (CreateTodo working_remote [97] None) initial_store) = stats_of_rows [False]"
proof -
  have t: "todos (step (CreateTodo working_remote [97] None) initial_store)
      = [sample_todo ''n1'' False]"
    by (simp add: step_create working_create updateStats_todos initial_todos)
  have q: "select_completed working_remote = Response (Some [False]) None"
    by (simp add: working_remote_def)
  show ?thesis
    using
      stats_follow_remote_rows [of "CreateTodo failing_remote [97] None" one_task_store None "[]"]
      stats_follow_remote_rows
        [of "CreateTodo (working_remote\<lparr>select_completed := Response None (Some ''offline'')\<rparr>)
               [97] None" one_task_store None "''offline''"]
      stats_follow_remote_rows
        [of "CreateTodo working_remote [97] None" initial_store "Some [False]" "[]"]
    by (simp add: failing_create_result unanswered_create working_create t q sample_completed)
qed

text \<open>
  A task is created and the statistics query that follows fails: the collection holds
  one task, and \<open>stats.total\<close> is still \<open>0\<close>.
\<close>

theorem stale_stats_counterexample:
  "fst (store_createTodo (working_remote\<lparr>select_completed := Response None (Some ''offline'')\<rparr>)
     [97] None initial_store) = Inr (sample_todo ''n1'' False) \<and>
   todos (step (CreateTodo (working_remote\<lparr>select_completed := Response None (Some ''offline'')\<rparr>)
     [97] None) initial_store) = [sample_todo ''n1'' False] \<and>
   total (stats (step (CreateTodo
     (working_remote\<lparr>select_completed := Response None (Some ''offline'')\<rparr>) [97] None)
     initial_store)) = 0"
proof -
  have "fst (store_createTodo (working_remote\<lparr>select_completed := Response None (Some ''offline'')\<rparr>)
     [97] None initial_store) = Inr (sample_todo ''n1'' False)"
    by (simp add: store_createTodo_def unanswered_create Let_def case_prod_beta)
  moreover have "stats initial_store =
      \<lparr>total = 0, stats.completed = 0, pending = 0, completionRate = 0\<rparr>"
    by (simp add: initial_store_def)
  ultimately show ?thesis
    by (simp add: step_create unanswered_create updateStats_todos updateStats_stats initial_todos)
qed

section \<open>Limits on the title\<close>

lemma trim_unchanged:
  assumes "x \<noteq> []" and "\<not> is_ws (hd x)" and "\<not> is_ws (last x)"
  shows "trim x = x"
proof -
  have a: "dropWhile is_ws x = x"
    using assms(2) by (simp add: dropWhile_eq_self_iff)
  have b: "dropWhile is_ws (rev x) = rev x"
    using assms(1,3) by (simp add: dropWhile_eq_self_iff hd_rev)
  show ?thesis by (simp add: trim_def a b)
qed

lemma trim_letters: "0 < n \<Longrightarrow> trim (replicate n 97) = replicate n 97"
  by (rule trim_unchanged) (simp_all add: is_ws_def)

text \<open>
  C10 (amended). The controller of the backend rejects a create or an update (with a
  valid id) that carries a title with status 400 exactly when the trimmed title is empty
  or longer than 255 characters; a title longer than 255 characters is rejected as too
  long. The task service rejects a title only when it is empty after trimming. The form
  \<open>TaskForm\<close> shows an error and sends nothing when the trimmed title is longer than
  100 characters.
\<close>

theorem title_length_limits:
  "((\<exists>b. controller_createTodo db uid (Some t) d = Reply 400 b) \<longleftrightarrow>
      trim t = [] \<or> 255 < length (trim t)) \<and>
   (255 < length (trim t) \<longrightarrow>
      controller_createTodo db uid (Some t) d = Reply 400 (ErrorBody TitleTooLong)) \<and>
   (is_uuid i \<longrightarrow>
      ((\<exists>b. controller_updateTodo db uid i (Some t) d c = Reply 400 b) \<longleftrightarrow>
         trim t = [] \<or> 255 < length (trim t))) \<and>
   (is_uuid i \<longrightarrow> 255 < length (trim t) \<longrightarrow>
      controller_updateTodo db uid i (Some t) d c = Reply 400 (ErrorBody TitleTooLong)) \<and>
   (fst (service_createTodo r t dd) = Inl (Wrapped CreateOp TitleRequired) \<longleftrightarrow> trim t = []) \<and>
   (j \<noteq> [] \<longrightarrow>
      (fst (service_updateTodo r j (Updates (Some t) d c)) = Inl (Wrapped UpdateOp TitleEmpty)
         \<longleftrightarrow> trim t = [])) \<and>
   (100 < length (trim t) \<longrightarrow>
      TaskForm_handleSubmit r t dd s = (Some FormTitleTooLong, [], s\<lparr>error := None\<rparr>))"
proof -
  have t0: "t = [] \<Longrightarrow> trim t = []" by (simp add: trim_def)
  have c1: "(\<exists>b. controller_createTodo db uid (Some t) d = Reply 400 b) \<longleftrightarrow>
      trim t = [] \<or> 255 < length (trim t)"
    using t0 by (auto simp: controller_createTodo_def Let_def split: response.splits option.splits)
  have c2: "255 < length (trim t) \<longrightarrow>
      controller_createTodo db uid (Some t) d = Reply 400 (ErrorBody TitleTooLong)"
    using t0 by (auto simp: controller_createTodo_def Let_def)
  have u1: "is_uuid i \<longrightarrow>
      ((\<exists>b. controller_updateTodo db uid i (Some t) d c = Reply 400 b) \<longleftrightarrow>
         trim t = [] \<or> 255 < length (trim t))"
    using t0 by (auto simp: controller_updateTodo_def Let_def split: response.splits option.splits)
  have u2: "is_uuid i \<longrightarrow> 255 < length (trim t) \<longrightarrow>
      controller_updateTodo db uid i (Some t) d c = Reply 400 (ErrorBody TitleTooLong)"
    using t0 by (auto simp: controller_updateTodo_def Let_def)
  have s1: "fst (service_createTodo r t dd) = Inl (Wrapped CreateOp TitleRequired) \<longleftrightarrow> trim t = []"
    using t0
    by (cases "getUser r")
      (auto simp: service_createTodo_def split: option.splits sum.splits)
  have s2: "j \<noteq> [] \<longrightarrow>
      (fst (service_updateTodo r j (Updates (Some t) d c)) = Inl (Wrapped UpdateOp TitleEmpty)
         \<longleftrightarrow> trim t = [])"
    using t0
    by (auto simp: service_updateTodo_def Let_def split: response.splits option.splits)
  have f: "100 < length (trim t) \<longrightarrow>
      TaskForm_handleSubmit r t dd s = (Some FormTitleTooLong, [], s\<lparr>error := None\<rparr>)"
    by (auto simp: TaskForm_handleSubmit_def Let_def)
  show ?thesis using c1 c2 u1 u2 s1 s2 f by blast
qed


lemma sample_uuid_ok: "is_uuid sample_uuid"
  by (simp add: is_uuid_def sample_uuid_def is_hex_def)

theorem title_length_limits_witness:
  "255 < length (trim (replicate 256 97)) \<and> is_uuid sample_uuid \<and> ''a'' \<noteq> [] \<and>
   controller_createTodo accepting_backend ''u1'' (Some (replicate 256 97)) None
     = Reply 400 (ErrorBody TitleTooLong) \<and>
   controller_updateTodo accepting_backend ''u1'' sample_uuid (Some (replicate 256 97)) None None
     = Reply 400 (ErrorBody TitleTooLong) \<and>
   fst (service_createTodo working_remote (replicate 256 97) [])
     \<noteq> Inl (Wrapped CreateOp TitleRequired) \<and>
   fst (service_updateTodo working_remote ''a'' (Updates (Some (replicate 256 97)) None None))
     \<noteq> Inl (Wrapped UpdateOp TitleEmpty) \<and>
   TaskForm_handleSubmit working_remote (replicate 256 97) [] initial_store
     = (Some FormTitleTooLong, [], initial_store\<lparr>error := None\<rparr>)"
proof -
  have t: "trim (replicate 256 97) = replicate 256 97"
    by (rule trim_letters) simp
  have n: "replicate 256 (97::nat) \<noteq> []"
    by (simp)
  show ?thesis
    using title_length_limits
      [of accepting_backend "''u1''" "replicate 256 97" None sample_uuid None working_remote "[]"
          "''a''" initial_store]
      sample_uuid_ok n
    by (simp add: t)
qed

text \<open>
  A title of 101 letters: the controller of the backend creates the task (status 201)
  and updates a task to it (status 200), and the task service sends it to the store
  and resolves, for a create as for an update.
\<close>

theorem long_title_counterexample:
  "length (trim (replicate 101 97)) = 101 \<and>
   controller_createTodo accepting_backend ''u1'' (Some (replicate 101 97)) None
     = Reply 201 (DataBody (Some (sample_todo ''n1'' False\<lparr>title := replicate 101 97\<rparr>))) \<and>
   controller_updateTodo accepting_backend ''u1'' sample_uuid (Some (replicate 101 97)) None None
     = Reply 200 (DataBody (Some (sample_todo sample_uuid False\<lparr>title := replicate 101 97\<rparr>))) \<and>
   service_createTodo working_remote (replicate 101 97) []
     = (Inr (sample_todo ''n1'' False\<lparr>title := replicate 101 97\<rparr>),
        [GetUser, Insert (replicate 101 97) [] ''u1'']) \<and>
   service_updateTodo working_remote ''a'' (Updates (Some (replicate 101 97)) None None)
     = (Inr (sample_todo ''a'' True), [Update ''a'' (Updates (Some (replicate 101 97)) None None)])"
proof -
  have t: "trim (replicate 101 97) = replicate 101 97"
    by (rule trim_letters) simp
  have e: "trim [] = []"
    by (simp add: trim_def)
  have n: "replicate 101 (97::nat) \<noteq> []"
    by (simp)
  have l: "length (replicate 101 (97::nat)) = 101"
    by (simp)
  have c: "controller_createTodo accepting_backend ''u1'' (Some (replicate 101 97)) None
     = Reply 201 (DataBody (Some (sample_todo ''n1'' False\<lparr>title := replicate 101 97\<rparr>)))"
    using n unfolding controller_createTodo_def
    by (simp add: t l accepting_backend_def sample_todo_def)
  have u: "controller_updateTodo accepting_backend ''u1'' sample_uuid (Some (replicate 101 97)) None None
     = Reply 200 (DataBody (Some (sample_todo sample_uuid False\<lparr>title := replicate 101 97\<rparr>)))"
    using n unfolding controller_updateTodo_def
    by (simp add: t l sample_uuid_ok accepting_backend_def sample_todo_def)
  have sc: "service_createTodo working_remote (replicate 101 97) []
     = (Inr (sample_todo ''n1'' False\<lparr>title := replicate 101 97\<rparr>),
        [GetUser, Insert (replicate 101 97) [] ''u1''])"
    using n unfolding service_createTodo_def
    by (simp add: t e l working_remote_def sample_todo_def)
  have su: "service_updateTodo working_remote ''a'' (Updates (Some (replicate 101 97)) None None)
     = (Inr (sample_todo ''a'' True), [Update ''a'' (Updates (Some (replicate 101 97)) None None)])"
    using n unfolding service_updateTodo_def
    by (simp add: t l working_remote_def)
  show ?thesis using c u sc su by (simp add: t l)
qed

end
